theory Spec2Isabelle
  imports Main
begin

section \<open>LeverageGuard: claims, verification and payout settlement\<close>

text \<open>
  A shallow embedding of the contract in \<^verbatim>\<open>contracts/leverageguard/LeverageGuardV2.sol\<close>,
  the current revision, on which the claims are settled. Its predecessor
  \<^verbatim>\<open>LeverageGuard.sol\<close>, without pause and multi-sig roster, is embedded after it, with
  the same observations where the two differ in form only.

  \<^item> \<^verbatim>\<open>address\<close> and \<^verbatim>\<open>uint256\<close> are natural numbers. The contract is compiled with
    \<^verbatim>\<open>pragma solidity ^0.8.0\<close>, whose arithmetic is checked: an overflowing \<open>*\<close> or
    \<open>+\<close> and an underflowing \<open>-\<close> revert with \<^verbatim>\<open>Panic(0x11)\<close>. The checked operations
    below return \<open>None\<close> there.
  \<^item> A transaction returns \<open>Inr\<close> of the new contract state, or \<open>Inl\<close> of the revert
    reason. A revert rolls every storage write and every event of the transaction back, so
    the state after a reverted transaction is the state before it (\<open>commit\<close>).
  \<^item> \<^verbatim>\<open>msg.sender\<close>, \<^verbatim>\<open>msg.value\<close> and \<^verbatim>\<open>block.timestamp\<close> are explicit arguments.
  \<^item> The events a transaction emits are appended to the field \<open>events\<close>. The contract
    cannot read its log, so no result depends on it.
  \<^item> The low-level call \<^verbatim>\<open>_user.call{value: payoutAmount}("")\<close> hands control to the
    recipient. The recipient is an argument of type \<open>recipient\<close>: given the contract
    state at the moment of the call, it returns \<open>None\<close> when the call fails and
    \<open>Some\<close> of the contract state it leaves behind (it may have called back into the
    contract) when the call succeeds.
\<close>

subsection \<open>Checked arithmetic of Solidity 0.8\<close>

type_synonym address = nat
type_synonym uint256 = nat

definition MAX_UINT256 :: nat where
  "MAX_UINT256 = 2 ^ 256 - 1"

definition checked_mul :: "uint256 \<Rightarrow> uint256 \<Rightarrow> uint256 option" where
  "checked_mul a b = (if a * b \<le> MAX_UINT256 then Some (a * b) else None)"

definition checked_add :: "uint256 \<Rightarrow> uint256 \<Rightarrow> uint256 option" where
  "checked_add a b = (if a + b \<le> MAX_UINT256 then Some (a + b) else None)"

definition checked_sub :: "uint256 \<Rightarrow> uint256 \<Rightarrow> uint256 option" where
  "checked_sub a b = (if b \<le> a then Some (a - b) else None)"

subsection \<open>Storage, events and revert reasons\<close>

text \<open>
  The revert reasons are the \<^verbatim>\<open>require\<close> messages of the two contracts, and
  \<open>Panic_0x11\<close> for checked arithmetic. The error kinds of the specification name them
  as follows: \<^verbatim>\<open>AuthorizationError\<close> is \<open>Not_owner\<close>, \<open>Not_multi_sig_wallet\<close>,
  \<open>User_not_whitelisted\<close> or \<open>User_is_blacklisted\<close>; \<^verbatim>\<open>ReentrancyError\<close> is
  \<open>Reentrant_call\<close>; \<^verbatim>\<open>PausedError\<close> is \<open>Contract_paused\<close>;
  \<^verbatim>\<open>DuplicateClaimError\<close> is \<open>Order_already_claimed\<close>; \<^verbatim>\<open>NotVerifiedError\<close> is
  \<open>Not_verified\<close>; \<^verbatim>\<open>InsufficientBalanceError\<close> is \<open>Insufficient_contract_balance\<close>;
  \<^verbatim>\<open>NotFoundError\<close> is \<open>Order_not_claimed\<close>, \<open>Order_record_not_found\<close> or
  \<open>Order_ID_mismatch\<close>. No revert of either contract corresponds to
  \<^verbatim>\<open>AlreadyPaidError\<close>.
\<close>

datatype revert =
    Not_owner
  | Not_multi_sig_wallet
  | User_not_whitelisted
  | User_is_blacklisted
  | Reentrant_call
  | Contract_paused
  | Order_already_claimed
  | Invalid_params
  | Invalid_insurance_rate
  | Order_not_claimed
  | Order_record_not_found
  | Order_ID_mismatch
  | Not_verified
  | Invalid_payout_amount
  | Insufficient_contract_balance
  | Payout_failed
  | Invalid_address
  | Invalid_threshold
  | Invalid_fee
  | Insufficient_multi_sig_wallets
  | No_record
  | Order_mismatch
  | Amount_must_be_positive
  | Panic_0x11

datatype event =
    ClaimSubmitted address uint256 uint256 uint256 uint256
  | PayoutVerified address uint256 uint256 uint256 uint256 uint256 bool
  | Payout address uint256
  | MultiSigExecuted address string
  | FundsAdded address uint256
  | UserWhitelisted address
  | UserRemovedFromWhitelist address
  | UserBlacklisted address
  | UserRemovedFromBlacklist address
  | ThresholdUpdated uint256
  | FeeUpdated uint256
  | ContractPaused address
  | ContractUnpaused address

record PayoutRecord =
  orderId :: uint256
  amount :: uint256
  timestamp :: uint256
  verified :: bool

record UserPayouts =
  records :: "PayoutRecord list"
  orderIdToIndex :: "uint256 \<Rightarrow> uint256"

record state =
  owner :: address
  liquidationThreshold :: uint256
  feePercentage :: uint256
  whitelistedUsers :: "address \<Rightarrow> bool"
  blacklistedUsers :: "address \<Rightarrow> bool"
  contractBalance :: uint256
  locked :: bool
  paused :: bool
  multiSigWallets :: "address list"
  minSignatures :: uint256
  userPayouts :: "address \<Rightarrow> UserPayouts"
  claimedOrders :: "address \<Rightarrow> uint256 \<Rightarrow> bool"
  events :: "event list"

type_synonym tx_result = "revert + state"

type_synonym recipient = "state \<Rightarrow> state option"

text \<open>The state after a transaction: a revert leaves the state as it was.\<close>

definition commit :: "state \<Rightarrow> tx_result \<Rightarrow> state" where
  "commit s r = (case r of Inl e \<Rightarrow> s | Inr s' \<Rightarrow> s')"

text \<open>A recipient that accepts the funds and does not call back, and one that refuses.\<close>

definition accepts :: recipient where
  "accepts m = Some m"

definition refuses :: recipient where
  "refuses m = None"

subsection \<open>Modifiers\<close>

definition onlyOwner :: "address \<Rightarrow> (state \<Rightarrow> tx_result) \<Rightarrow> state \<Rightarrow> tx_result" where
  "onlyOwner sender body s = (if sender = owner s then body s else Inl Not_owner)"

text \<open>The loop of \<^verbatim>\<open>onlyMultiSig\<close> over the roster, with its \<^verbatim>\<open>break\<close>.\<close>

fun isMultiSig :: "address \<Rightarrow> address list \<Rightarrow> bool" where
  "isMultiSig sender [] = False"
| "isMultiSig sender (w # ws) = (if sender = w then True else isMultiSig sender ws)"

definition onlyMultiSig :: "address \<Rightarrow> (state \<Rightarrow> tx_result) \<Rightarrow> state \<Rightarrow> tx_result" where
  "onlyMultiSig sender body s =
     (if isMultiSig sender (multiSigWallets s) then body s else Inl Not_multi_sig_wallet)"

definition whitelistedOnly :: "address \<Rightarrow> (state \<Rightarrow> tx_result) \<Rightarrow> state \<Rightarrow> tx_result" where
  "whitelistedOnly sender body s =
     (if \<not> whitelistedUsers s sender then Inl User_not_whitelisted
      else if blacklistedUsers s sender then Inl User_is_blacklisted
      else body s)"

definition noReentrant :: "(state \<Rightarrow> tx_result) \<Rightarrow> state \<Rightarrow> tx_result" where
  "noReentrant body s =
     (if locked s then Inl Reentrant_call
      else case body (s\<lparr>locked := True\<rparr>) of
             Inl e \<Rightarrow> Inl e
           | Inr s' \<Rightarrow> Inr (s'\<lparr>locked := False\<rparr>))"

definition whenNotPaused :: "(state \<Rightarrow> tx_result) \<Rightarrow> state \<Rightarrow> tx_result" where
  "whenNotPaused body s = (if paused s then Inl Contract_paused else body s)"

subsection \<open>Construction and administration\<close>

definition constructor :: "address \<Rightarrow> address list \<Rightarrow> tx_result" where
  "constructor sender wallets =
     (if \<not> 3 \<le> length wallets then Inl Insufficient_multi_sig_wallets
      else Inr \<lparr>owner = sender, liquidationThreshold = 80, feePercentage = 5,
                whitelistedUsers = (\<lambda>a. False), blacklistedUsers = (\<lambda>a. False),
                contractBalance = 0, locked = False, paused = False,
                multiSigWallets = wallets, minSignatures = 3,
                userPayouts = (\<lambda>a. \<lparr>records = [], orderIdToIndex = (\<lambda>k. 0)\<rparr>),
                claimedOrders = (\<lambda>a k. False), events = []\<rparr>)"

definition pause :: "address \<Rightarrow> state \<Rightarrow> tx_result" where
  "pause sender =
     onlyOwner sender (\<lambda>s. Inr (s\<lparr>paused := True, events := events s @ [ContractPaused sender]\<rparr>))"

definition unpause :: "address \<Rightarrow> state \<Rightarrow> tx_result" where
  "unpause sender =
     onlyOwner sender (\<lambda>s. Inr (s\<lparr>paused := False, events := events s @ [ContractUnpaused sender]\<rparr>))"

definition addFunds :: "address \<Rightarrow> uint256 \<Rightarrow> state \<Rightarrow> tx_result" where
  "addFunds sender val =
     onlyOwner sender (\<lambda>s.
       case checked_add (contractBalance s) val of
         None \<Rightarrow> Inl Panic_0x11
       | Some b \<Rightarrow> Inr (s\<lparr>contractBalance := b, events := events s @ [FundsAdded sender val]\<rparr>))"

definition addToWhitelist :: "address \<Rightarrow> address \<Rightarrow> state \<Rightarrow> tx_result" where
  "addToWhitelist sender user =
     onlyOwner sender (\<lambda>s.
       if \<not> user \<noteq> 0 then Inl Invalid_address
       else Inr (s\<lparr>whitelistedUsers := (whitelistedUsers s)(user := True),
                   events := events s @ [UserWhitelisted user]\<rparr>))"

definition removeFromWhitelist :: "address \<Rightarrow> address \<Rightarrow> state \<Rightarrow> tx_result" where
  "removeFromWhitelist sender user =
     onlyOwner sender (\<lambda>s.
       Inr (s\<lparr>whitelistedUsers := (whitelistedUsers s)(user := False),
              events := events s @ [UserRemovedFromWhitelist user]\<rparr>))"

definition addToBlacklist :: "address \<Rightarrow> address \<Rightarrow> state \<Rightarrow> tx_result" where
  "addToBlacklist sender user =
     onlyOwner sender (\<lambda>s.
       Inr (s\<lparr>blacklistedUsers := (blacklistedUsers s)(user := True),
              events := events s @ [UserBlacklisted user]\<rparr>))"

definition removeFromBlacklist :: "address \<Rightarrow> address \<Rightarrow> state \<Rightarrow> tx_result" where
  "removeFromBlacklist sender user =
     onlyOwner sender (\<lambda>s.
       Inr (s\<lparr>blacklistedUsers := (blacklistedUsers s)(user := False),
              events := events s @ [UserRemovedFromBlacklist user]\<rparr>))"

definition updateThreshold :: "address \<Rightarrow> uint256 \<Rightarrow> state \<Rightarrow> tx_result" where
  "updateThreshold sender newThreshold =
     onlyMultiSig sender (\<lambda>s.
       if \<not> (newThreshold > 0 \<and> newThreshold < 100) then Inl Invalid_threshold
       else Inr (s\<lparr>liquidationThreshold := newThreshold,
                   events := events s @ [ThresholdUpdated newThreshold,
                                         MultiSigExecuted sender ''UpdateThreshold'']\<rparr>))"

definition updateFee :: "address \<Rightarrow> uint256 \<Rightarrow> state \<Rightarrow> tx_result" where
  "updateFee sender newFee =
     onlyMultiSig sender (\<lambda>s.
       if \<not> newFee \<le> 5 then Inl Invalid_fee
       else Inr (s\<lparr>feePercentage := newFee,
                   events := events s @ [FeeUpdated newFee,
                                         MultiSigExecuted sender ''UpdateFee'']\<rparr>))"

subsection \<open>submitClaim\<close>

definition submitClaim_body ::
  "address \<Rightarrow> uint256 \<Rightarrow> uint256 \<Rightarrow> uint256 \<Rightarrow> uint256 \<Rightarrow> uint256 \<Rightarrow> state \<Rightarrow> tx_result" where
  "submitClaim_body sender now oid principal' leverage insuranceRate s =
     (if claimedOrders s sender oid then Inl Order_already_claimed
      else if \<not> (principal' > 0 \<and> leverage > liquidationThreshold s) then Inl Invalid_params
      else if \<not> (insuranceRate > 0 \<and> insuranceRate \<le> 100) then Inl Invalid_insurance_rate
      else
        case checked_mul principal' insuranceRate of
          None \<Rightarrow> Inl Panic_0x11
        | Some pr \<Rightarrow>
        case checked_sub leverage (liquidationThreshold s) of
          None \<Rightarrow> Inl Panic_0x11
        | Some d \<Rightarrow>
        case checked_mul pr d of
          None \<Rightarrow> Inl Panic_0x11
        | Some prd \<Rightarrow>
            let estimatedPayout = prd div 10000;
                up = userPayouts s sender;
                index = length (records up);
                up' = up\<lparr>records := records up @
                                     [\<lparr>orderId = oid, amount = estimatedPayout,
                                       timestamp = now, verified = False\<rparr>],
                          orderIdToIndex := (orderIdToIndex up)(oid := index)\<rparr>
            in Inr (s\<lparr>claimedOrders :=
                         (claimedOrders s)(sender := (claimedOrders s sender)(oid := True)),
                       userPayouts := (userPayouts s)(sender := up'),
                       events := events s @
                         [ClaimSubmitted sender oid principal' leverage insuranceRate,
                          PayoutVerified sender oid principal' leverage insuranceRate
                            estimatedPayout False]\<rparr>))"

definition submitClaim ::
  "address \<Rightarrow> uint256 \<Rightarrow> uint256 \<Rightarrow> uint256 \<Rightarrow> uint256 \<Rightarrow> uint256 \<Rightarrow> state \<Rightarrow> tx_result" where
  "submitClaim sender now oid principal' leverage insuranceRate =
     whitelistedOnly sender (noReentrant (whenNotPaused
       (submitClaim_body sender now oid principal' leverage insuranceRate)))"

subsection \<open>updateVerification\<close>

definition updateVerification_body ::
  "address \<Rightarrow> address \<Rightarrow> uint256 \<Rightarrow> uint256 \<Rightarrow> uint256 \<Rightarrow> uint256 \<Rightarrow> bool \<Rightarrow> state \<Rightarrow> tx_result" where
  "updateVerification_body sender user oid principal' leverage insuranceRate vflag s =
     (if \<not> claimedOrders s user oid then Inl Order_not_claimed
      else
        let up = userPayouts s user;
            index = orderIdToIndex up oid
        in if \<not> index < length (records up) then Inl Order_record_not_found
           else if \<not> orderId (records up ! index) = oid then Inl Order_ID_mismatch
           else
             case checked_mul (amount (records up ! index)) insuranceRate of
               None \<Rightarrow> Inl Panic_0x11
             | Some m \<Rightarrow>
                 let payoutAmount = m div 100;
                     r' = (records up ! index)\<lparr>verified := vflag, amount := payoutAmount\<rparr>;
                     up' = up\<lparr>records := (records up)[index := r']\<rparr>
                 in Inr (s\<lparr>userPayouts := (userPayouts s)(user := up'),
                            events := events s @
                              [PayoutVerified user oid principal' leverage insuranceRate
                                 payoutAmount vflag,
                               MultiSigExecuted sender ''UpdateVerification'']\<rparr>))"

definition updateVerification ::
  "address \<Rightarrow> address \<Rightarrow> uint256 \<Rightarrow> uint256 \<Rightarrow> uint256 \<Rightarrow> uint256 \<Rightarrow> bool \<Rightarrow> state \<Rightarrow> tx_result" where
  "updateVerification sender user oid principal' leverage insuranceRate vflag =
     onlyMultiSig sender (whenNotPaused
       (updateVerification_body sender user oid principal' leverage insuranceRate vflag))"

subsection \<open>executePayout\<close>

definition executePayout_body ::
  "address \<Rightarrow> address \<Rightarrow> uint256 \<Rightarrow> recipient \<Rightarrow> state \<Rightarrow> tx_result" where
  "executePayout_body sender user oid rcp s =
     (if \<not> whitelistedUsers s user then Inl User_not_whitelisted
      else if blacklistedUsers s user then Inl User_is_blacklisted
      else if \<not> claimedOrders s user oid then Inl Order_not_claimed
      else
        let up = userPayouts s user;
            index = orderIdToIndex up oid
        in if \<not> index < length (records up) then Inl Order_record_not_found
           else if \<not> orderId (records up ! index) = oid then Inl Order_ID_mismatch
           else if \<not> verified (records up ! index) then Inl Not_verified
           else
             let payoutCap = amount (records up ! index)
             in if \<not> payoutCap > 0 then Inl Invalid_payout_amount
                else if \<not> payoutCap \<le> contractBalance s then Inl Insufficient_contract_balance
                else
                  case checked_mul payoutCap (feePercentage s) of
                    None \<Rightarrow> Inl Panic_0x11
                  | Some m \<Rightarrow>
                  let fee = m div 100
                  in case checked_sub payoutCap fee of
                    None \<Rightarrow> Inl Panic_0x11
                  | Some payoutAmount \<Rightarrow>
                  case checked_sub (contractBalance s) payoutAmount of
                    None \<Rightarrow> Inl Panic_0x11
                  | Some b \<Rightarrow>
                  case rcp (s\<lparr>contractBalance := b\<rparr>) of
                    None \<Rightarrow> Inl Payout_failed
                  | Some s2 \<Rightarrow>
                      Inr (s2\<lparr>events := events s2 @
                                 [Payout user payoutAmount,
                                  MultiSigExecuted sender ''ExecutePayout'']\<rparr>))"

definition executePayout ::
  "address \<Rightarrow> address \<Rightarrow> uint256 \<Rightarrow> recipient \<Rightarrow> state \<Rightarrow> tx_result" where
  "executePayout sender user oid rcp =
     onlyMultiSig sender (noReentrant (whenNotPaused
       (executePayout_body sender user oid rcp)))"

subsection \<open>Read-only queries\<close>

text \<open>The copy loop of \<^verbatim>\<open>getUserPayouts\<close>: \<open>result[i] = records[i]\<close> for \<open>i\<close> from
  \<open>0\<close> up to the length. The argument \<open>k\<close> counts the iterations that remain.\<close>

fun copy_records :: "PayoutRecord list \<Rightarrow> nat \<Rightarrow> nat \<Rightarrow> PayoutRecord list" where
  "copy_records rs i 0 = []"
| "copy_records rs i (Suc k) = rs ! i # copy_records rs (Suc i) k"

definition getUserPayouts :: "state \<Rightarrow> address \<Rightarrow> PayoutRecord list" where
  "getUserPayouts s user =
     copy_records (records (userPayouts s user)) 0 (length (records (userPayouts s user)))"

definition isOrderClaimed :: "state \<Rightarrow> address \<Rightarrow> uint256 \<Rightarrow> bool" where
  "isOrderClaimed s user oid = claimedOrders s user oid"

subsection \<open>Claims as the contract looks them up\<close>

text \<open>Both \<^verbatim>\<open>updateVerification\<close> and \<^verbatim>\<open>executePayout\<close> find the record of
  \<open>(user, oid)\<close> through \<^verbatim>\<open>orderIdToIndex\<close> and accept it after the same three
  \<^verbatim>\<open>require\<close>s. \<open>claimRecord\<close> is the record they read, \<open>claimExists\<close> says
  that the three checks pass.\<close>

definition claimRecord :: "state \<Rightarrow> address \<Rightarrow> uint256 \<Rightarrow> PayoutRecord" where
  "claimRecord s user oid =
     records (userPayouts s user) ! orderIdToIndex (userPayouts s user) oid"

definition claimExists :: "state \<Rightarrow> address \<Rightarrow> uint256 \<Rightarrow> bool" where
  "claimExists s user oid =
     (claimedOrders s user oid \<and>
      orderIdToIndex (userPayouts s user) oid < length (records (userPayouts s user)) \<and>
      orderId (claimRecord s user oid) = oid)"

text \<open>In the states the contract can reach, every claimed order has its record: the
  lookup of \<open>claimExists\<close> succeeds for it (see \<open>registry_ok_submitClaim\<close> and its
  companions).\<close>

definition registry_ok :: "state \<Rightarrow> bool" where
  "registry_ok s = (\<forall>user oid. claimedOrders s user oid \<longrightarrow> claimExists s user oid)"

text \<open>The amount \<^verbatim>\<open>executePayout\<close> transfers for a claim: \<^verbatim>\<open>payoutCap - fee\<close>.\<close>

definition netAmount :: "state \<Rightarrow> address \<Rightarrow> uint256 \<Rightarrow> uint256" where
  "netAmount s user oid =
     (let payoutCap = amount (claimRecord s user oid);
          fee = (payoutCap * feePercentage s) div 100
      in payoutCap - fee)"

subsection \<open>Sequences of transactions\<close>

fun transact :: "state \<Rightarrow> (state \<Rightarrow> tx_result) list \<Rightarrow> tx_result" where
  "transact s [] = Inr s"
| "transact s (t # ts) = (case t s of Inl e \<Rightarrow> Inl e | Inr s' \<Rightarrow> transact s' ts)"

definition deploy :: "address \<Rightarrow> address list \<Rightarrow> (state \<Rightarrow> tx_result) list \<Rightarrow> tx_result" where
  "deploy sender wallets ts =
     (case constructor sender wallets of Inl e \<Rightarrow> Inl e | Inr s \<Rightarrow> transact s ts)"

text \<open>A sequence of settlements \<open>(sender, user, oid)\<close>, each paid to a recipient that
  accepts the funds without calling back. It stops at the first settlement that reverts.\<close>

fun settleAll :: "state \<Rightarrow> (address \<times> address \<times> uint256) list \<Rightarrow> tx_result" where
  "settleAll s [] = Inr s"
| "settleAll s ((sender, user, oid) # cs) =
     (case executePayout sender user oid accepts s of
        Inl e \<Rightarrow> Inl e
      | Inr s' \<Rightarrow> settleAll s' cs)"

definition nets :: "state \<Rightarrow> (address \<times> address \<times> uint256) list \<Rightarrow> uint256 list" where
  "nets s cs = map (\<lambda>(sender, user, oid). netAmount s user oid) cs"

text \<open>A recipient that, on receiving the funds, calls \<^verbatim>\<open>executePayout\<close> again and lets
  a failure of that nested call fail its own call.\<close>

definition reenter :: "address \<Rightarrow> address \<Rightarrow> uint256 \<Rightarrow> recipient \<Rightarrow> recipient" where
  "reenter sender user oid rcp m =
     (case executePayout sender user oid rcp m of Inl e \<Rightarrow> None | Inr m' \<Rightarrow> Some m')"

text \<open>The event log is write-only: no function of the contract reads it.\<close>

definition clear_log :: "tx_result \<Rightarrow> tx_result" where
  "clear_log r = (case r of Inl e \<Rightarrow> Inl e | Inr s \<Rightarrow> Inr (s\<lparr>events := []\<rparr>))"

subsection \<open>Example states\<close>

text \<open>The contract deployed by owner \<open>1\<close> with the roster \<open>[1, 2, 3]\<close>, claimant \<open>10\<close>
  whitelisted and \<open>funds\<close> added; and the same with one claim \<open>(10, 7)\<close> on record.\<close>

definition example_deployed :: "uint256 \<Rightarrow> state" where
  "example_deployed funds =
     \<lparr>owner = 1, liquidationThreshold = 80, feePercentage = 5,
      whitelistedUsers = (\<lambda>a. False)(10 := True), blacklistedUsers = (\<lambda>a. False),
      contractBalance = funds, locked = False, paused = False,
      multiSigWallets = [1, 2, 3], minSignatures = 3,
      userPayouts = (\<lambda>a. \<lparr>records = [], orderIdToIndex = (\<lambda>k. 0)\<rparr>),
      claimedOrders = (\<lambda>a k. False), events = []\<rparr>"

definition example_claim :: "uint256 \<Rightarrow> uint256 \<Rightarrow> bool \<Rightarrow> state" where
  "example_claim funds amt vflag =
     \<lparr>owner = 1, liquidationThreshold = 80, feePercentage = 5,
      whitelistedUsers = (\<lambda>a. False)(10 := True), blacklistedUsers = (\<lambda>a. False),
      contractBalance = funds, locked = False, paused = False,
      multiSigWallets = [1, 2, 3], minSignatures = 3,
      userPayouts = (\<lambda>a. \<lparr>records = [], orderIdToIndex = (\<lambda>k. 0)\<rparr>)
        (10 := \<lparr>records = [\<lparr>orderId = 7, amount = amt, timestamp = 1000, verified = vflag\<rparr>],
                orderIdToIndex = (\<lambda>k. 0)(7 := 0)\<rparr>),
      claimedOrders = (\<lambda>a k. False)(10 := (\<lambda>k. False)(7 := True)), events = []\<rparr>"

section \<open>The first revision, LeverageGuard.sol\<close>

text \<open>
  The predecessor contract has no pause and no roster: the owner verifies and pays. Its
  records are one array per user, searched from the end for the order id, and
  \<^verbatim>\<open>executePayout\<close> takes the amount to pay from its caller. The record type and the
  events are those above.
\<close>

record state_v1 =
  owner_v1 :: address
  liquidationThreshold_v1 :: uint256
  feePercentage_v1 :: uint256
  whitelistedUsers_v1 :: "address \<Rightarrow> bool"
  blacklistedUsers_v1 :: "address \<Rightarrow> bool"
  contractBalance_v1 :: uint256
  locked_v1 :: bool
  userPayouts_v1 :: "address \<Rightarrow> PayoutRecord list"
  claimedOrders_v1 :: "address \<Rightarrow> uint256 \<Rightarrow> bool"
  events_v1 :: "event list"

type_synonym tx_result_v1 = "revert + state_v1"

type_synonym recipient_v1 = "state_v1 \<Rightarrow> state_v1 option"

definition accepts_v1 :: recipient_v1 where
  "accepts_v1 m = Some m"

definition onlyOwner_v1 ::
  "address \<Rightarrow> (state_v1 \<Rightarrow> tx_result_v1) \<Rightarrow> state_v1 \<Rightarrow> tx_result_v1" where
  "onlyOwner_v1 sender body s = (if sender = owner_v1 s then body s else Inl Not_owner)"

definition whitelistedOnly_v1 ::
  "address \<Rightarrow> (state_v1 \<Rightarrow> tx_result_v1) \<Rightarrow> state_v1 \<Rightarrow> tx_result_v1" where
  "whitelistedOnly_v1 sender body s =
     (if \<not> whitelistedUsers_v1 s sender then Inl User_not_whitelisted
      else if blacklistedUsers_v1 s sender then Inl User_is_blacklisted
      else body s)"

definition noReentrant_v1 :: "(state_v1 \<Rightarrow> tx_result_v1) \<Rightarrow> state_v1 \<Rightarrow> tx_result_v1" where
  "noReentrant_v1 body s =
     (if locked_v1 s then Inl Reentrant_call
      else case body (s\<lparr>locked_v1 := True\<rparr>) of
             Inl e \<Rightarrow> Inl e
           | Inr s' \<Rightarrow> Inr (s'\<lparr>locked_v1 := False\<rparr>))"

definition submitClaim_v1 ::
  "address \<Rightarrow> uint256 \<Rightarrow> uint256 \<Rightarrow> uint256 \<Rightarrow> uint256 \<Rightarrow> uint256 \<Rightarrow> state_v1 \<Rightarrow> tx_result_v1" where
  "submitClaim_v1 sender now oid principal' leverage insuranceRate =
     whitelistedOnly_v1 sender (noReentrant_v1 (\<lambda>s.
       if claimedOrders_v1 s sender oid then Inl Order_already_claimed
       else if \<not> (principal' > 0 \<and> leverage > liquidationThreshold_v1 s) then Inl Invalid_params
       else if \<not> (insuranceRate > 0 \<and> insuranceRate \<le> 100) then Inl Invalid_insurance_rate
       else
         case checked_mul principal' insuranceRate of
           None \<Rightarrow> Inl Panic_0x11
         | Some pr \<Rightarrow>
         case checked_sub leverage (liquidationThreshold_v1 s) of
           None \<Rightarrow> Inl Panic_0x11
         | Some d \<Rightarrow>
         case checked_mul pr d of
           None \<Rightarrow> Inl Panic_0x11
         | Some prd \<Rightarrow>
             let estimatedPayout = prd div 10000
             in Inr (s\<lparr>claimedOrders_v1 :=
                          (claimedOrders_v1 s)(sender := (claimedOrders_v1 s sender)(oid := True)),
                        userPayouts_v1 :=
                          (userPayouts_v1 s)(sender := userPayouts_v1 s sender @
                             [\<lparr>orderId = oid, amount = estimatedPayout,
                               timestamp = now, verified = False\<rparr>]),
                        events_v1 := events_v1 s @
                          [ClaimSubmitted sender oid principal' leverage insuranceRate,
                           PayoutVerified sender oid principal' leverage insuranceRate
                             estimatedPayout False]\<rparr>)))"

text \<open>The loop of \<^verbatim>\<open>updateVerification\<close>: \<open>i\<close> runs from the length down, the
  first record from the end with the order id is rewritten, and the loop returns the new
  array with the amount it stored; \<^verbatim>\<open>Order mismatch\<close> when it runs out.\<close>

fun updateVerification_scan ::
  "PayoutRecord list \<Rightarrow> nat \<Rightarrow> uint256 \<Rightarrow> uint256 \<Rightarrow> bool \<Rightarrow> revert + PayoutRecord list \<times> uint256" where
  "updateVerification_scan rs 0 oid insuranceRate vflag = Inl Order_mismatch"
| "updateVerification_scan rs (Suc i) oid insuranceRate vflag =
     (if orderId (rs ! i) = oid then
        case checked_mul (amount (rs ! i)) insuranceRate of
          None \<Rightarrow> Inl Panic_0x11
        | Some m \<Rightarrow>
            let payoutAmount = m div 100
            in Inr (rs[i := (rs ! i)\<lparr>verified := vflag, amount := payoutAmount\<rparr>], payoutAmount)
      else updateVerification_scan rs i oid insuranceRate vflag)"

definition updateVerification_v1 ::
  "address \<Rightarrow> address \<Rightarrow> uint256 \<Rightarrow> uint256 \<Rightarrow> uint256 \<Rightarrow> uint256 \<Rightarrow> bool \<Rightarrow> state_v1 \<Rightarrow> tx_result_v1" where
  "updateVerification_v1 sender user oid principal' leverage insuranceRate vflag =
     onlyOwner_v1 sender (\<lambda>s.
       if \<not> claimedOrders_v1 s user oid then Inl Order_not_claimed
       else
         let len = length (userPayouts_v1 s user)
         in if \<not> len > 0 then Inl No_record
            else
              case updateVerification_scan (userPayouts_v1 s user) len oid insuranceRate vflag of
                Inl e \<Rightarrow> Inl e
              | Inr (rs', payoutAmount) \<Rightarrow>
                  Inr (s\<lparr>userPayouts_v1 := (userPayouts_v1 s)(user := rs'),
                         events_v1 := events_v1 s @
                           [PayoutVerified user oid principal' leverage insuranceRate
                              payoutAmount vflag]\<rparr>))"

text \<open>The loop of \<^verbatim>\<open>executePayout\<close> that looks for a verified record of the order.\<close>

fun foundVerified :: "PayoutRecord list \<Rightarrow> nat \<Rightarrow> uint256 \<Rightarrow> bool" where
  "foundVerified rs 0 oid = False"
| "foundVerified rs (Suc i) oid =
     (if orderId (rs ! i) = oid \<and> verified (rs ! i) then True else foundVerified rs i oid)"

definition executePayout_v1 ::
  "address \<Rightarrow> address \<Rightarrow> uint256 \<Rightarrow> uint256 \<Rightarrow> recipient_v1 \<Rightarrow> state_v1 \<Rightarrow> tx_result_v1" where
  "executePayout_v1 sender user oid amt rcp =
     onlyOwner_v1 sender (noReentrant_v1 (\<lambda>s.
       if \<not> whitelistedUsers_v1 s user then Inl User_not_whitelisted
       else if blacklistedUsers_v1 s user then Inl User_is_blacklisted
       else if \<not> claimedOrders_v1 s user oid then Inl Order_not_claimed
       else if \<not> amt > 0 then Inl Amount_must_be_positive
       else if \<not> amt \<le> contractBalance_v1 s then Inl Insufficient_contract_balance
       else
         let len = length (userPayouts_v1 s user)
         in if \<not> len > 0 then Inl No_record
            else if \<not> foundVerified (userPayouts_v1 s user) len oid then Inl Not_verified
            else
              case checked_mul amt (feePercentage_v1 s) of
                None \<Rightarrow> Inl Panic_0x11
              | Some m \<Rightarrow>
              let fee = m div 100
              in case checked_sub amt fee of
                None \<Rightarrow> Inl Panic_0x11
              | Some payoutAmount \<Rightarrow>
              case checked_sub (contractBalance_v1 s) payoutAmount of
                None \<Rightarrow> Inl Panic_0x11
              | Some b \<Rightarrow>
              case rcp (s\<lparr>contractBalance_v1 := b\<rparr>) of
                None \<Rightarrow> Inl Payout_failed
              | Some s2 \<Rightarrow> Inr (s2\<lparr>events_v1 := events_v1 s2 @ [Payout user payoutAmount]\<rparr>)))"

definition example_v1 :: "uint256 \<Rightarrow> uint256 \<Rightarrow> bool \<Rightarrow> state_v1" where
  "example_v1 funds amt vflag =
     \<lparr>owner_v1 = 1, liquidationThreshold_v1 = 80, feePercentage_v1 = 5,
      whitelistedUsers_v1 = (\<lambda>a. False)(10 := True), blacklistedUsers_v1 = (\<lambda>a. False),
      contractBalance_v1 = funds, locked_v1 = False,
      userPayouts_v1 = (\<lambda>a. [])
        (10 := [\<lparr>orderId = 7, amount = amt, timestamp = 1000, verified = vflag\<rparr>]),
      claimedOrders_v1 = (\<lambda>a k. False)(10 := (\<lambda>k. False)(7 := True)), events_v1 = []\<rparr>"

section \<open>Basic facts\<close>

lemma isMultiSig_iff: "isMultiSig a ws \<longleftrightarrow> a \<in> set ws"
  by (induction ws) auto

lemma commit_Inl [simp]: "commit s (Inl e) = s"
  by (simp add: commit_def)

lemma commit_Inr [simp]: "commit s (Inr s') = s'"
  by (simp add: commit_def)

lemma copy_records_drop: "i + k = length rs \<Longrightarrow> copy_records rs i k = drop i rs"
proof (induction k arbitrary: i)
  case 0
  then show ?case by simp
next
  case (Suc k)
  then have "i < length rs" by simp
  then have "drop i rs = rs ! i # drop (Suc i) rs"
    by (rule Cons_nth_drop_Suc [symmetric])
  with Suc show ?case by simp
qed

lemma getUserPayouts_records: "getUserPayouts s user = records (userPayouts s user)"
  by (simp add: getUserPayouts_def copy_records_drop)

subsection \<open>Arithmetic\<close>

lemma div_mult_le_mult_div_nat:
  fixes x r k :: nat
  shows "x div k * r \<le> x * r div k"
proof (cases "k = 0")
  case True
  then show ?thesis by simp
next
  case False
  have "x div k * k \<le> x"
    by simp
  then have "x div k * k * r \<le> x * r"
    by (rule mult_le_mono1)
  then have "x div k * r * k \<le> x * r"
    by (simp add: ac_simps)
  with False show ?thesis
    by (simp add: less_eq_div_iff_mult_less_eq)
qed

lemma rescale_twice_le:
  fixes a r :: nat
  shows "a * r div 100 * r div 100 \<le> a * r * r div 10000"
proof -
  have "a * r div 100 * r \<le> a * r * r div 100"
    by (rule div_mult_le_mult_div_nat)
  then have "a * r div 100 * r div 100 \<le> a * r * r div 100 div 100"
    by (rule div_le_mono)
  then show ?thesis
    by (simp add: div_mult2_eq)
qed

lemma rescale_twice_eq:
  fixes a r :: nat
  assumes "100 dvd a * r"
  shows "a * r div 100 * r div 100 = a * r * r div 10000"
proof -
  have "a * r div 100 * r = a * r * r div 100"
    using assms by (rule dvd_div_mult)
  then show ?thesis
    by (simp add: div_mult2_eq)
qed

lemma mult_bound_left:
  fixes n d m :: nat
  assumes "1 \<le> d" "n * d \<le> m"
  shows "n \<le> m"
proof -
  have "n \<le> n * d"
    using assms(1) by (cases d) simp_all
  then show ?thesis
    using assms(2) by (rule order_trans)
qed

lemma percent_le:
  fixes a f :: nat
  assumes "f \<le> 100"
  shows "a * f div 100 \<le> a"
proof -
  have "a * f \<le> a * 100"
    using assms by (rule mult_le_mono2)
  then have "a * f div 100 \<le> a * 100 div 100"
    by (rule div_le_mono)
  then show ?thesis
    by simp
qed

section \<open>Behaviour of the transactions\<close>

subsection \<open>Which check rejects a call\<close>

lemma executePayout_while_locked:
  "locked s \<Longrightarrow> executePayout sender user oid rcp s =
     Inl (if isMultiSig sender (multiSigWallets s) then Reentrant_call else Not_multi_sig_wallet)"
  by (simp add: executePayout_def onlyMultiSig_def noReentrant_def)

lemma executePayout_while_paused:
  "paused s \<Longrightarrow> executePayout sender user oid rcp s =
     Inl (if \<not> isMultiSig sender (multiSigWallets s) then Not_multi_sig_wallet
          else if locked s then Reentrant_call else Contract_paused)"
  by (simp add: executePayout_def onlyMultiSig_def noReentrant_def whenNotPaused_def)

lemma submitClaim_while_paused:
  "paused s \<Longrightarrow> submitClaim sender now oid p l r s =
     Inl (if \<not> whitelistedUsers s sender then User_not_whitelisted
          else if blacklistedUsers s sender then User_is_blacklisted
          else if locked s then Reentrant_call else Contract_paused)"
  by (simp add: submitClaim_def whitelistedOnly_def noReentrant_def whenNotPaused_def)

lemma submitClaim_again:
  "claimedOrders s sender oid \<Longrightarrow> submitClaim sender now oid p l r s =
     Inl (if \<not> whitelistedUsers s sender then User_not_whitelisted
          else if blacklistedUsers s sender then User_is_blacklisted
          else if locked s then Reentrant_call
          else if paused s then Contract_paused else Order_already_claimed)"
  by (simp add: submitClaim_def whitelistedOnly_def noReentrant_def whenNotPaused_def
      submitClaim_body_def)

lemma executePayout_not_verified:
  "claimExists s user oid \<Longrightarrow> \<not> verified (claimRecord s user oid) \<Longrightarrow>
   executePayout sender user oid rcp s =
     Inl (if \<not> isMultiSig sender (multiSigWallets s) then Not_multi_sig_wallet
          else if locked s then Reentrant_call
          else if paused s then Contract_paused
          else if \<not> whitelistedUsers s user then User_not_whitelisted
          else if blacklistedUsers s user then User_is_blacklisted
          else Not_verified)"
  by (simp add: executePayout_def onlyMultiSig_def noReentrant_def whenNotPaused_def
      executePayout_body_def claimExists_def claimRecord_def Let_def)

lemma executePayout_gross_check:
  assumes "isMultiSig sender (multiSigWallets s)" "\<not> locked s" "\<not> paused s"
    "whitelistedUsers s user" "\<not> blacklistedUsers s user" "claimExists s user oid"
    "verified (claimRecord s user oid)" "0 < amount (claimRecord s user oid)"
  shows "executePayout sender user oid rcp s = Inl Insufficient_contract_balance
         \<longleftrightarrow> contractBalance s < amount (claimRecord s user oid)"
  using assms
  by (auto simp add: executePayout_def onlyMultiSig_def noReentrant_def whenNotPaused_def
      executePayout_body_def claimExists_def claimRecord_def Let_def
      split: option.splits sum.splits)

subsection \<open>The reentrancy flag\<close>

lemma executePayout_unlocks:
  "\<not> locked s \<Longrightarrow> \<not> locked (commit s (executePayout sender user oid rcp s))"
  by (auto simp add: executePayout_def onlyMultiSig_def noReentrant_def commit_def
      split: sum.splits)

text \<open>The recipient runs only in states that hold the flag: two recipients that agree on
  those states give the same transaction.\<close>

lemma executePayout_recipient_locked:
  "(\<And>m. locked m \<Longrightarrow> rcp m = rcp' m) \<Longrightarrow>
   executePayout sender user oid rcp s = executePayout sender user oid rcp' s"
  by (simp add: executePayout_def onlyMultiSig_def noReentrant_def whenNotPaused_def
      executePayout_body_def Let_def split: option.splits)

lemma executePayout_reenter:
  "executePayout sender user oid (reenter sender' user' oid' rcp') s =
   executePayout sender user oid refuses s"
  by (rule executePayout_recipient_locked)
     (simp add: reenter_def refuses_def executePayout_while_locked)

subsection \<open>Successful transactions\<close>

lemma executePayout_accepts_Inr:
  assumes "executePayout sender user oid accepts s = Inr s'"
  shows "s' = s\<lparr>contractBalance := contractBalance s - netAmount s user oid,
               locked := False,
               events := events s @ [Payout user (netAmount s user oid),
                                     MultiSigExecuted sender ''ExecutePayout'']\<rparr>"
    and "netAmount s user oid \<le> contractBalance s"
    and "amount (claimRecord s user oid) \<le> contractBalance s"
    and "netAmount s user oid \<le> amount (claimRecord s user oid)"
  using assms
  by (auto simp add: executePayout_def onlyMultiSig_def noReentrant_def whenNotPaused_def
      executePayout_body_def claimRecord_def netAmount_def accepts_def checked_mul_def
      checked_sub_def Let_def split: if_splits option.splits sum.splits)

lemma executePayout_accepts_conds:
  assumes "executePayout sender user oid accepts s = Inr s'"
  shows "isMultiSig sender (multiSigWallets s)" "\<not> locked s" "\<not> paused s"
    "whitelistedUsers s user" "\<not> blacklistedUsers s user" "claimExists s user oid"
    "verified (claimRecord s user oid)" "0 < amount (claimRecord s user oid)"
    "amount (claimRecord s user oid) * feePercentage s \<le> MAX_UINT256"
    "amount (claimRecord s user oid) * feePercentage s div 100 \<le> amount (claimRecord s user oid)"
  using assms
  by (simp_all add: executePayout_def onlyMultiSig_def noReentrant_def whenNotPaused_def
      executePayout_body_def claimRecord_def claimExists_def accepts_def checked_mul_def
      checked_sub_def Let_def split: if_splits option.splits sum.splits)

lemma executePayout_succeeds:
  assumes "isMultiSig sender (multiSigWallets s)" "\<not> locked s" "\<not> paused s"
    "whitelistedUsers s user" "\<not> blacklistedUsers s user" "claimExists s user oid"
    "verified (claimRecord s user oid)" "0 < amount (claimRecord s user oid)"
    "amount (claimRecord s user oid) * feePercentage s \<le> MAX_UINT256"
    "amount (claimRecord s user oid) * feePercentage s div 100 \<le> amount (claimRecord s user oid)"
    "amount (claimRecord s user oid) \<le> contractBalance s"
  shows "executePayout sender user oid accepts s =
           Inr (s\<lparr>contractBalance := contractBalance s - netAmount s user oid,
                   locked := False,
                   events := events s @ [Payout user (netAmount s user oid),
                                         MultiSigExecuted sender ''ExecutePayout'']\<rparr>)"
  using assms
  by (simp add: executePayout_def onlyMultiSig_def noReentrant_def whenNotPaused_def
      executePayout_body_def claimExists_def claimRecord_def netAmount_def accepts_def
      checked_mul_def checked_sub_def Let_def)

text \<open>A settlement leaves the claim as it found it: the same call succeeds again as long
  as the balance covers the amount of the record.\<close>

lemma executePayout_repeatable:
  assumes first: "executePayout sender user oid accepts s = Inr s'"
    and covered: "amount (claimRecord s user oid) \<le> contractBalance s'"
  shows "executePayout sender user oid accepts s' =
           Inr (s'\<lparr>contractBalance := contractBalance s' - netAmount s user oid,
                    locked := False,
                    events := events s' @ [Payout user (netAmount s user oid),
                                           MultiSigExecuted sender ''ExecutePayout'']\<rparr>)"
proof -
  note c = executePayout_accepts_conds [OF first]
  have s': "s' = s\<lparr>contractBalance := contractBalance s - netAmount s user oid,
               locked := False,
               events := events s @ [Payout user (netAmount s user oid),
                                     MultiSigExecuted sender ''ExecutePayout'']\<rparr>"
    by (rule executePayout_accepts_Inr(1) [OF first])
  have same: "claimRecord s' user oid = claimRecord s user oid"
    "claimExists s' user oid = claimExists s user oid"
    "netAmount s' user oid = netAmount s user oid"
    by (simp_all add: s' claimRecord_def claimExists_def netAmount_def)
  have "executePayout sender user oid accepts s' =
           Inr (s'\<lparr>contractBalance := contractBalance s' - netAmount s' user oid,
                    locked := False,
                    events := events s' @ [Payout user (netAmount s' user oid),
                                           MultiSigExecuted sender ''ExecutePayout'']\<rparr>)"
  proof (rule executePayout_succeeds)
    show "isMultiSig sender (multiSigWallets s')" using c(1) by (simp add: s')
    show "\<not> locked s'" by (simp add: s')
    show "\<not> paused s'" using c(3) by (simp add: s')
    show "whitelistedUsers s' user" using c(4) by (simp add: s')
    show "\<not> blacklistedUsers s' user" using c(5) by (simp add: s')
    show "claimExists s' user oid" using c(6) by (simp add: same)
    show "verified (claimRecord s' user oid)" using c(7) by (simp add: same)
    show "0 < amount (claimRecord s' user oid)" using c(8) by (simp add: same)
    have fee: "feePercentage s' = feePercentage s" by (simp add: s')
    show "amount (claimRecord s' user oid) * feePercentage s' \<le> MAX_UINT256"
      using c(9) by (simp add: same fee)
    show "amount (claimRecord s' user oid) * feePercentage s' div 100
            \<le> amount (claimRecord s' user oid)"
      using c(10) by (simp add: same fee)
    show "amount (claimRecord s' user oid) \<le> contractBalance s'"
      using covered by (simp add: same)
  qed
  then show ?thesis
    by (simp add: same)
qed

lemma submitClaim_Inr:
  assumes "whitelistedUsers s sender" "\<not> blacklistedUsers s sender" "\<not> locked s" "\<not> paused s"
    "\<not> claimedOrders s sender oid" "0 < p" "liquidationThreshold s < l" "0 < r" "r \<le> 100"
    "p * r * (l - liquidationThreshold s) \<le> MAX_UINT256"
  shows "\<exists>s'. submitClaim sender now oid p l r s = Inr s' \<and>
           claimExists s' sender oid \<and>
           claimRecord s' sender oid =
             \<lparr>orderId = oid, amount = p * r * (l - liquidationThreshold s) div 10000,
              timestamp = now, verified = False\<rparr> \<and>
           records (userPayouts s' sender) =
             records (userPayouts s sender) @ [claimRecord s' sender oid] \<and>
           multiSigWallets s' = multiSigWallets s \<and> paused s' = paused s \<and> \<not> locked s' \<and>
           whitelistedUsers s' = whitelistedUsers s \<and>
           blacklistedUsers s' = blacklistedUsers s \<and>
           contractBalance s' = contractBalance s \<and> feePercentage s' = feePercentage s"
proof -
  have "1 \<le> l - liquidationThreshold s"
    using assms(7) by simp
  then have pr: "p * r \<le> MAX_UINT256"
    using assms(10) by (rule mult_bound_left)
  show ?thesis
    using assms pr
    by (simp add: submitClaim_def whitelistedOnly_def noReentrant_def whenNotPaused_def
        submitClaim_body_def checked_mul_def checked_sub_def Let_def claimExists_def
        claimRecord_def)
qed

lemma submitClaim_overflow:
  assumes "whitelistedUsers s sender" "\<not> blacklistedUsers s sender" "\<not> locked s" "\<not> paused s"
    "\<not> claimedOrders s sender oid" "0 < p" "liquidationThreshold s < l" "0 < r" "r \<le> 100"
    "MAX_UINT256 < p * r * (l - liquidationThreshold s)"
  shows "submitClaim sender now oid p l r s = Inl Panic_0x11"
  using assms
  by (simp add: submitClaim_def whitelistedOnly_def noReentrant_def whenNotPaused_def
      submitClaim_body_def checked_mul_def checked_sub_def Let_def)

lemma updateVerification_Inr:
  assumes "isMultiSig sender (multiSigWallets s)" "\<not> paused s" "claimExists s user oid"
    "amount (claimRecord s user oid) * r \<le> MAX_UINT256"
  shows "\<exists>s'. updateVerification sender user oid p l r v s = Inr s' \<and>
           claimExists s' user oid \<and>
           claimRecord s' user oid =
             (claimRecord s user oid)\<lparr>verified := v,
                amount := amount (claimRecord s user oid) * r div 100\<rparr> \<and>
           multiSigWallets s' = multiSigWallets s \<and> paused s' = paused s \<and>
           locked s' = locked s \<and>
           whitelistedUsers s' = whitelistedUsers s \<and>
           blacklistedUsers s' = blacklistedUsers s \<and>
           contractBalance s' = contractBalance s \<and> feePercentage s' = feePercentage s"
  using assms
  by (simp add: updateVerification_def onlyMultiSig_def whenNotPaused_def
      updateVerification_body_def checked_mul_def Let_def claimExists_def claimRecord_def)

subsection \<open>Sequences of settlements\<close>

lemma nets_cong:
  "userPayouts s' = userPayouts s \<Longrightarrow> feePercentage s' = feePercentage s \<Longrightarrow>
   nets s' cs = nets s cs"
  by (simp add: nets_def netAmount_def claimRecord_def)

lemma settleAll_append:
  "settleAll s (xs @ ys) =
     (case settleAll s xs of Inl e \<Rightarrow> Inl e | Inr m \<Rightarrow> settleAll m ys)"
  by (induction xs arbitrary: s) (auto split: sum.splits)

lemma settleAll_ledger:
  "settleAll s cs = Inr s' \<Longrightarrow>
   contractBalance s' + sum_list (nets s cs) = contractBalance s \<and>
   userPayouts s' = userPayouts s \<and> feePercentage s' = feePercentage s"
proof (induction cs arbitrary: s)
  case Nil
  then show ?case by (simp add: nets_def)
next
  case (Cons c cs)
  obtain sender user oid where c: "c = (sender, user, oid)"
    by (cases c) auto
  from Cons.prems c obtain m where
    step: "executePayout sender user oid accepts s = Inr m" and rest: "settleAll m cs = Inr s'"
    by (auto split: sum.splits)
  note m = executePayout_accepts_Inr [OF step]
  have keep: "userPayouts m = userPayouts s" "feePercentage m = feePercentage s"
    by (simp_all add: m(1))
  have bal: "contractBalance m + netAmount s user oid = contractBalance s"
    using m(2) by (simp add: m(1))
  from Cons.IH [OF rest] have
    "contractBalance s' + sum_list (nets m cs) = contractBalance m"
    "userPayouts s' = userPayouts m" "feePercentage s' = feePercentage m"
    by simp_all
  moreover have "nets m cs = nets s cs"
    by (rule nets_cong [OF keep])
  moreover have "nets s (c # cs) = netAmount s user oid # nets s cs"
    by (simp add: c nets_def)
  ultimately show ?case
    using keep bal by simp
qed

lemma settleAll_take:
  assumes "settleAll s cs = Inr s'"
  shows "\<exists>m. settleAll s (take k cs) = Inr m"
proof -
  have "settleAll s (take k cs @ drop k cs) = Inr s'"
    using assms by simp
  then show ?thesis
    unfolding settleAll_append by (cases "settleAll s (take k cs)") auto
qed

subsection \<open>The example states are reachable\<close>

lemma example_deployed_reached:
  "funds \<le> MAX_UINT256 \<Longrightarrow>
   clear_log (deploy 1 [1, 2, 3] [addToWhitelist 1 10, addFunds 1 funds]) =
     Inr (example_deployed funds)"
  by (simp add: clear_log_def deploy_def constructor_def addToWhitelist_def addFunds_def
      onlyOwner_def checked_add_def example_deployed_def)

lemma example_submitted_reached:
  "clear_log (submitClaim 10 1000 7 1000 90 50 (example_deployed funds)) =
     Inr (example_claim funds 50 False)"
  by (simp add: clear_log_def submitClaim_def whitelistedOnly_def noReentrant_def
      whenNotPaused_def submitClaim_body_def checked_mul_def checked_sub_def MAX_UINT256_def
      Let_def example_deployed_def example_claim_def)

lemma example_verified_reached:
  "clear_log (updateVerification 2 10 7 1000 90 50 True (example_claim funds 50 False)) =
     Inr (example_claim funds 25 True)"
  by (simp add: clear_log_def updateVerification_def onlyMultiSig_def whenNotPaused_def
      updateVerification_body_def checked_mul_def MAX_UINT256_def Let_def example_claim_def)

lemma example_small_claim_reached:
  "clear_log (submitClaim 10 1000 7 200 81 100 (example_deployed funds)) =
     Inr (example_claim funds 2 False)"
  by (simp add: clear_log_def submitClaim_def whitelistedOnly_def noReentrant_def
      whenNotPaused_def submitClaim_body_def checked_mul_def checked_sub_def MAX_UINT256_def
      Let_def example_deployed_def example_claim_def)

lemma example_paused_reached:
  "clear_log (pause 1 (example_claim funds amt v)) =
     Inr ((example_claim funds amt v)\<lparr>paused := True\<rparr>)"
  by (simp add: clear_log_def pause_def onlyOwner_def example_claim_def)

text \<open>The state in which the recipient of a payout of the claim \<open>(10, 7)\<close> runs: the
  flag is held and the net amount 24 is already debited.\<close>

lemma example_in_flight:
  "executePayout 2 10 7 rcp (example_claim 100 25 True) =
     (case rcp ((example_claim 76 25 True)\<lparr>locked := True\<rparr>) of
        None \<Rightarrow> Inl Payout_failed
      | Some m \<Rightarrow> Inr (m\<lparr>events := events m @ [Payout 10 24,
                                                 MultiSigExecuted 2 ''ExecutePayout''],
                         locked := False\<rparr>))"
  by (simp add: executePayout_def onlyMultiSig_def noReentrant_def whenNotPaused_def
      executePayout_body_def checked_mul_def checked_sub_def MAX_UINT256_def Let_def
      example_claim_def split: option.splits)

subsection \<open>Every claimed order has its record\<close>

lemma registry_ok_cong:
  "claimedOrders s' = claimedOrders s \<Longrightarrow> userPayouts s' = userPayouts s \<Longrightarrow>
   registry_ok s' = registry_ok s"
  by (simp add: registry_ok_def claimExists_def claimRecord_def)

lemma registry_ok_constructor: "constructor sender wallets = Inr s \<Longrightarrow> registry_ok s"
  by (auto simp add: constructor_def registry_ok_def split: if_splits)

lemma registry_ok_submitClaim:
  assumes "registry_ok s" "submitClaim sender now oid p l r s = Inr s'"
  shows "registry_ok s'"
proof -
  define rec where "rec = \<lparr>orderId = oid, amount = p * r * (l - liquidationThreshold s) div 10000,
                           timestamp = now, verified = False\<rparr>"
  from assms(2) have s':
    "claimedOrders s' = (claimedOrders s)(sender := (claimedOrders s sender)(oid := True))"
    "userPayouts s' = (userPayouts s)(sender := (userPayouts s sender)
        \<lparr>records := records (userPayouts s sender) @ [rec],
         orderIdToIndex := (orderIdToIndex (userPayouts s sender))
            (oid := length (records (userPayouts s sender)))\<rparr>)"
    by (auto simp add: submitClaim_def whitelistedOnly_def noReentrant_def whenNotPaused_def
        submitClaim_body_def checked_mul_def checked_sub_def Let_def rec_def
        split: if_splits option.splits sum.splits)
  show ?thesis
    unfolding registry_ok_def
  proof (intro allI impI)
    fix user k assume c: "claimedOrders s' user k"
    show "claimExists s' user k"
    proof (cases "user = sender \<and> k = oid")
      case True
      then show ?thesis
        by (simp add: claimExists_def claimRecord_def s' rec_def)
    next
      case False
      with c have "claimedOrders s user k"
        by (auto simp add: s' split: if_splits)
      with assms(1) have "claimExists s user k"
        by (simp add: registry_ok_def)
      with False c show ?thesis
        by (auto simp add: claimExists_def claimRecord_def s' nth_append)
    qed
  qed
qed

lemma registry_ok_updateVerification:
  assumes "registry_ok s" "updateVerification sender user oid p l r v s = Inr s'"
  shows "registry_ok s'"
proof -
  define idx where "idx = orderIdToIndex (userPayouts s user) oid"
  define rs where "rs = records (userPayouts s user)"
  from assms(2) have s': "claimedOrders s' = claimedOrders s"
    "userPayouts s' = (userPayouts s)(user := (userPayouts s user)
        \<lparr>records := rs[idx := (rs ! idx)\<lparr>verified := v, amount := amount (rs ! idx) * r div 100\<rparr>]\<rparr>)"
    by (auto simp add: updateVerification_def onlyMultiSig_def whenNotPaused_def
        updateVerification_body_def checked_mul_def Let_def idx_def rs_def
        split: if_splits option.splits)
  show ?thesis
    unfolding registry_ok_def
  proof (intro allI impI)
    fix u k assume "claimedOrders s' u k"
    then have "claimedOrders s u k"
      by (simp add: s')
    with assms(1) have e: "claimExists s u k"
      by (simp add: registry_ok_def)
    show "claimExists s' u k"
    proof (cases "u = user")
      case False
      with e show ?thesis
        by (simp add: claimExists_def claimRecord_def s')
    next
      case True
      with e have "orderIdToIndex (userPayouts s user) k < length rs"
        "orderId (rs ! orderIdToIndex (userPayouts s user) k) = k"
        by (simp_all add: claimExists_def claimRecord_def rs_def)
      with True e show ?thesis
        by (cases "orderIdToIndex (userPayouts s user) k = idx")
           (simp_all add: claimExists_def claimRecord_def s' rs_def)
    qed
  qed
qed

lemma registry_ok_executePayout:
  assumes "registry_ok s" "executePayout sender user oid accepts s = Inr s'"
  shows "registry_ok s'"
proof -
  have "claimedOrders s' = claimedOrders s" "userPayouts s' = userPayouts s"
    by (simp_all add: executePayout_accepts_Inr(1) [OF assms(2)])
  then have "registry_ok s' = registry_ok s"
    by (rule registry_ok_cong)
  with assms(1) show ?thesis
    by simp
qed

lemma registry_ok_example: "registry_ok (example_claim funds amt v)"
  unfolding registry_ok_def
proof (intro allI impI)
  fix user oid assume "claimedOrders (example_claim funds amt v) user oid"
  then have "user = 10 \<and> oid = 7"
    by (simp add: example_claim_def split: if_splits)
  then show "claimExists (example_claim funds amt v) user oid"
    by (simp add: claimExists_def claimRecord_def example_claim_def)
qed

section \<open>The first revision behaves alike\<close>

text \<open>The same observations on \<^verbatim>\<open>LeverageGuard.sol\<close>, where the claims refer to it.\<close>

lemma foundVerified_iff:
  "foundVerified rs n oid \<longleftrightarrow> (\<exists>i<n. orderId (rs ! i) = oid \<and> verified (rs ! i))"
  by (induction n) (auto simp: less_Suc_eq)

lemma updateVerification_scan_Inr:
  "updateVerification_scan rs n oid r v = Inr (rs', a) \<Longrightarrow>
   \<exists>i<n. orderId (rs ! i) = oid \<and> (\<forall>j. i < j \<and> j < n \<longrightarrow> orderId (rs ! j) \<noteq> oid) \<and>
         amount (rs ! i) * r \<le> MAX_UINT256 \<and> a = amount (rs ! i) * r div 100 \<and>
         rs' = rs[i := (rs ! i)\<lparr>verified := v, amount := a\<rparr>]"
proof (induction n)
  case 0
  then show ?case by simp
next
  case (Suc n)
  show ?case
  proof (cases "orderId (rs ! n) = oid")
    case True
    with Suc.prems show ?thesis
      by (auto simp: checked_mul_def Let_def split: if_splits)
  next
    case False
    with Suc.prems have "updateVerification_scan rs n oid r v = Inr (rs', a)"
      by simp
    from Suc.IH [OF this] obtain i where i: "i < n" "orderId (rs ! i) = oid"
      "\<forall>j. i < j \<and> j < n \<longrightarrow> orderId (rs ! j) \<noteq> oid"
      "amount (rs ! i) * r \<le> MAX_UINT256" "a = amount (rs ! i) * r div 100"
      "rs' = rs[i := (rs ! i)\<lparr>verified := v, amount := a\<rparr>]"
      by blast
    have "\<forall>j. i < j \<and> j < Suc n \<longrightarrow> orderId (rs ! j) \<noteq> oid"
      using i(3) False by (auto simp: less_Suc_eq)
    with i show ?thesis
      by (intro exI [of _ i]) simp
  qed
qed

text \<open>C1, C2 and C8 on the first revision: the owner names the amount; the check compares
  that gross amount with the balance, the net amount is debited, and nothing marks the
  claim as paid.\<close>

lemma executePayout_v1_Inr:
  assumes "executePayout_v1 sender user oid amt accepts_v1 s = Inr s'"
  shows "s' = s\<lparr>contractBalance_v1 :=
                   contractBalance_v1 s - (amt - amt * feePercentage_v1 s div 100),
               locked_v1 := False,
               events_v1 := events_v1 s @
                   [Payout user (amt - amt * feePercentage_v1 s div 100)]\<rparr>"
    and "amt \<le> contractBalance_v1 s"
    and "amt * feePercentage_v1 s div 100 \<le> amt"
  using assms
  by (auto simp add: executePayout_v1_def onlyOwner_v1_def noReentrant_v1_def accepts_v1_def
      checked_mul_def checked_sub_def Let_def split: if_splits option.splits sum.splits)

lemma executePayout_v1_twice:
  "executePayout_v1 1 10 7 25 accepts_v1 (example_v1 100 25 True) =
     Inr ((example_v1 76 25 True)\<lparr>events_v1 := [Payout 10 24]\<rparr>) \<and>
   executePayout_v1 1 10 7 25 accepts_v1
       ((example_v1 76 25 True)\<lparr>events_v1 := [Payout 10 24]\<rparr>) =
     Inr ((example_v1 52 25 True)\<lparr>events_v1 := [Payout 10 24, Payout 10 24]\<rparr>)"
  by (simp add: example_v1_def executePayout_v1_def onlyOwner_v1_def noReentrant_v1_def
      accepts_v1_def checked_mul_def checked_sub_def MAX_UINT256_def Let_def)

lemma executePayout_v1_gross_check:
  "executePayout_v1 1 10 7 25 accepts_v1 (example_v1 24 25 True) =
     Inl Insufficient_contract_balance"
  by (simp add: example_v1_def executePayout_v1_def onlyOwner_v1_def noReentrant_v1_def)

text \<open>C5 and C6 on the first revision.\<close>

lemma executePayout_v1_unverified:
  assumes "\<forall>i < length (userPayouts_v1 s user).
             orderId (userPayouts_v1 s user ! i) = oid \<longrightarrow> \<not> verified (userPayouts_v1 s user ! i)"
  shows "isl (executePayout_v1 sender user oid amt rcp s)"
proof -
  have "\<not> foundVerified (userPayouts_v1 s user) (length (userPayouts_v1 s user)) oid"
    using assms by (simp add: foundVerified_iff)
  then show ?thesis
    by (simp add: executePayout_v1_def onlyOwner_v1_def noReentrant_v1_def Let_def)
qed

lemma executePayout_v1_while_locked:
  "locked_v1 s \<Longrightarrow> executePayout_v1 sender user oid amt rcp s =
     Inl (if sender = owner_v1 s then Reentrant_call else Not_owner)"
  by (simp add: executePayout_v1_def onlyOwner_v1_def noReentrant_v1_def)

text \<open>C3 and C4 on the first revision.\<close>

lemma submitClaim_v1_again:
  "claimedOrders_v1 s sender oid \<Longrightarrow> submitClaim_v1 sender now oid p l r s =
     Inl (if \<not> whitelistedUsers_v1 s sender then User_not_whitelisted
          else if blacklistedUsers_v1 s sender then User_is_blacklisted
          else if locked_v1 s then Reentrant_call
          else Order_already_claimed)"
  by (simp add: submitClaim_v1_def whitelistedOnly_v1_def noReentrant_v1_def)

lemma submitClaim_v1_Inr:
  assumes "submitClaim_v1 sender now oid p l r s = Inr s'"
  shows "userPayouts_v1 s' sender = userPayouts_v1 s sender @
           [\<lparr>orderId = oid, amount = p * r * (l - liquidationThreshold_v1 s) div 10000,
             timestamp = now, verified = False\<rparr>]"
  using assms
  by (auto simp add: submitClaim_v1_def whitelistedOnly_v1_def noReentrant_v1_def
      checked_mul_def checked_sub_def Let_def split: if_splits option.splits sum.splits)

text \<open>C10 on the first revision.\<close>

lemma updateVerification_v1_twice:
  "updateVerification_v1 1 10 7 200 81 99 True (example_v1 100 2 False) =
     Inr ((example_v1 100 1 True)\<lparr>events_v1 := [PayoutVerified 10 7 200 81 99 1 True]\<rparr>) \<and>
   updateVerification_v1 1 10 7 200 81 99 True
       ((example_v1 100 1 True)\<lparr>events_v1 := [PayoutVerified 10 7 200 81 99 1 True]\<rparr>) =
     Inr ((example_v1 100 0 True)
            \<lparr>events_v1 := [PayoutVerified 10 7 200 81 99 1 True,
                           PayoutVerified 10 7 200 81 99 0 True]\<rparr>)"
  by (simp add: example_v1_def updateVerification_v1_def onlyOwner_v1_def checked_mul_def
      MAX_UINT256_def Let_def)

section \<open>The claims\<close>

subsection \<open>C1: a claim is paid at most once\<close>

text \<open>
  C1. After one successful \<^verbatim>\<open>executePayout\<close> for a claim, every later call for the same
  \<open>(owner, orderId)\<close> should fail and leave the ledger alone. The contract keeps no mark of
  a payout: the record stays verified with its amount. In the example state with a
  balance of 100 and the verified claim \<open>(10, 7)\<close> worth 25, the first call pays 24 and
  leaves 76, and the same call again pays another 24 and leaves 52.
\<close>

theorem executePayout_pays_same_claim_twice:
  "executePayout 2 10 7 accepts (example_claim 100 25 True) =
     Inr ((example_claim 76 25 True)
            \<lparr>events := [Payout 10 24, MultiSigExecuted 2 ''ExecutePayout'']\<rparr>) \<and>
   executePayout 2 10 7 accepts
     ((example_claim 76 25 True)
        \<lparr>events := [Payout 10 24, MultiSigExecuted 2 ''ExecutePayout'']\<rparr>) =
     Inr ((example_claim 52 25 True)
            \<lparr>events := [Payout 10 24, MultiSigExecuted 2 ''ExecutePayout'',
                        Payout 10 24, MultiSigExecuted 2 ''ExecutePayout'']\<rparr>)"
  by (simp add: example_claim_def executePayout_def onlyMultiSig_def noReentrant_def
      whenNotPaused_def executePayout_body_def accepts_def checked_mul_def checked_sub_def
      MAX_UINT256_def Let_def)

subsection \<open>C2: the ledger after a sequence of settlements\<close>

text \<open>
  C2. For every sequence of settlements that all succeed, starting from any state, the
  final \<open>contractBalance\<close> is the initial balance minus the sum of the net amounts
  (\<^verbatim>\<open>payoutCap - fee\<close>) of the settlements; the same holds after every prefix of the
  sequence, where the difference is never negative; and the \<open>k\<close>-th settlement finds at
  least its net amount on the ledger and lowers the balance by exactly that amount.
  The net amounts are those the claims have in the initial state: a settlement changes
  neither the records nor the fee. Recipients accept the funds without calling back.
\<close>

theorem settlements_debit_net_amounts:
  assumes "settleAll s cs = Inr s'"
  shows "int (contractBalance s') = int (contractBalance s) - int (sum_list (nets s cs)) \<and>
         (\<forall>k \<le> length cs. \<exists>m. settleAll s (take k cs) = Inr m \<and>
            int (contractBalance m) =
              int (contractBalance s) - int (sum_list (nets s (take k cs))) \<and>
            0 \<le> int (contractBalance s) - int (sum_list (nets s (take k cs)))) \<and>
         (\<forall>k < length cs. \<exists>m m'. settleAll s (take k cs) = Inr m \<and>
            settleAll s (take (Suc k) cs) = Inr m' \<and>
            nets s cs ! k \<le> contractBalance m \<and>
            contractBalance m' = contractBalance m - nets s cs ! k)"
proof (intro conjI allI impI)
  show "int (contractBalance s') = int (contractBalance s) - int (sum_list (nets s cs))"
    using settleAll_ledger [OF assms] by linarith
next
  fix k assume "k \<le> length cs"
  obtain m where m: "settleAll s (take k cs) = Inr m"
    using settleAll_take [OF assms] by blast
  from settleAll_ledger [OF m]
  have "contractBalance m + sum_list (nets s (take k cs)) = contractBalance s"
    by simp
  then have "int (contractBalance m) =
      int (contractBalance s) - int (sum_list (nets s (take k cs)))"
    by linarith
  moreover have "0 \<le> int (contractBalance m)"
    by simp
  ultimately show "\<exists>m. settleAll s (take k cs) = Inr m \<and>
            int (contractBalance m) =
              int (contractBalance s) - int (sum_list (nets s (take k cs))) \<and>
            0 \<le> int (contractBalance s) - int (sum_list (nets s (take k cs)))"
    using m by auto
next
  fix k assume k: "k < length cs"
  obtain m where m: "settleAll s (take k cs) = Inr m"
    using settleAll_take [OF assms] by blast
  obtain m' where m': "settleAll s (take (Suc k) cs) = Inr m'"
    using settleAll_take [OF assms] by blast
  have tk: "take (Suc k) cs = take k cs @ [cs ! k]"
    using k by (simp add: take_Suc_conv_app_nth)
  have a: "contractBalance m + sum_list (nets s (take k cs)) = contractBalance s"
    using settleAll_ledger [OF m] by simp
  have b: "contractBalance m' + sum_list (nets s (take (Suc k) cs)) = contractBalance s"
    using settleAll_ledger [OF m'] by simp
  have c: "sum_list (nets s (take (Suc k) cs)) = sum_list (nets s (take k cs)) + nets s cs ! k"
    using k by (simp add: tk nets_def)
  from a b c have "nets s cs ! k \<le> contractBalance m \<and>
            contractBalance m' = contractBalance m - nets s cs ! k"
    by linarith
  with m m' show "\<exists>m m'. settleAll s (take k cs) = Inr m \<and>
            settleAll s (take (Suc k) cs) = Inr m' \<and>
            nets s cs ! k \<le> contractBalance m \<and>
            contractBalance m' = contractBalance m - nets s cs ! k"
    by blast
qed

text \<open>Two settlements of the claim \<open>(10, 7)\<close>, worth 25 with a fee of 1, from a balance
  of 100.\<close>

theorem settlements_debit_net_amounts_witness:
  "settleAll (example_claim 100 25 True) [(2, 10, 7), (3, 10, 7)] =
     Inr ((example_claim 52 25 True)
            \<lparr>events := [Payout 10 24, MultiSigExecuted 2 ''ExecutePayout'',
                        Payout 10 24, MultiSigExecuted 3 ''ExecutePayout'']\<rparr>) \<and>
   nets (example_claim 100 25 True) [(2, 10, 7), (3, 10, 7)] = [24, 24] \<and>
   int (contractBalance ((example_claim 52 25 True)
            \<lparr>events := [Payout 10 24, MultiSigExecuted 2 ''ExecutePayout'',
                        Payout 10 24, MultiSigExecuted 3 ''ExecutePayout'']\<rparr>)) =
     int (contractBalance (example_claim 100 25 True)) -
     int (sum_list (nets (example_claim 100 25 True) [(2, 10, 7), (3, 10, 7)]))"
proof -
  have run: "settleAll (example_claim 100 25 True) [(2, 10, 7), (3, 10, 7)] =
     Inr ((example_claim 52 25 True)
            \<lparr>events := [Payout 10 24, MultiSigExecuted 2 ''ExecutePayout'',
                        Payout 10 24, MultiSigExecuted 3 ''ExecutePayout'']\<rparr>)"
    by (simp add: example_claim_def executePayout_def onlyMultiSig_def noReentrant_def
        whenNotPaused_def executePayout_body_def accepts_def checked_mul_def checked_sub_def
        MAX_UINT256_def Let_def)
  have nets: "nets (example_claim 100 25 True) [(2, 10, 7), (3, 10, 7)] = [24, 24]"
    by (simp add: nets_def netAmount_def claimRecord_def example_claim_def)
  from settlements_debit_net_amounts [OF run] run nets show ?thesis
    by blast
qed

subsection \<open>C3: the estimated payout of a submission\<close>

text \<open>
  C3, amended. For every submission by a caller who is whitelisted and not blacklisted,
  with the contract not paused and the reentrancy flag free, \<open>principal > 0\<close>,
  \<open>leverage > liquidationThreshold\<close>, \<open>0 < insuranceRate \<le> 100\<close> and \<open>(caller, orderId)\<close> not
  yet claimed: if \<open>principal * insuranceRate * (leverage - liquidationThreshold)\<close> fits
  into a \<^verbatim>\<open>uint256\<close>, the call succeeds and the record it stores for \<open>(caller, orderId)\<close>,
  the last of the caller's records, has that product divided by 10000 (truncating) as its
  amount and is unverified; if the product does not fit, the call reverts with
  \<^verbatim>\<open>Panic(0x11)\<close>.
\<close>

theorem submitClaim_stores_estimatedPayout:
  assumes "whitelistedUsers s sender" "\<not> blacklistedUsers s sender" "\<not> locked s" "\<not> paused s"
    "\<not> claimedOrders s sender oid" "0 < p" "liquidationThreshold s < l" "0 < r" "r \<le> 100"
  shows "(p * r * (l - liquidationThreshold s) \<le> MAX_UINT256 \<longrightarrow>
           (\<exists>s'. submitClaim sender now oid p l r s = Inr s' \<and>
              claimExists s' sender oid \<and>
              claimRecord s' sender oid =
                \<lparr>orderId = oid, amount = p * r * (l - liquidationThreshold s) div 10000,
                 timestamp = now, verified = False\<rparr> \<and>
              records (userPayouts s' sender) =
                records (userPayouts s sender) @ [claimRecord s' sender oid])) \<and>
         (MAX_UINT256 < p * r * (l - liquidationThreshold s) \<longrightarrow>
            submitClaim sender now oid p l r s = Inl Panic_0x11)"
proof (intro conjI impI)
  assume "p * r * (l - liquidationThreshold s) \<le> MAX_UINT256"
  from submitClaim_Inr [OF assms this, of now]
  show "\<exists>s'. submitClaim sender now oid p l r s = Inr s' \<and>
              claimExists s' sender oid \<and>
              claimRecord s' sender oid =
                \<lparr>orderId = oid, amount = p * r * (l - liquidationThreshold s) div 10000,
                 timestamp = now, verified = False\<rparr> \<and>
              records (userPayouts s' sender) =
                records (userPayouts s sender) @ [claimRecord s' sender oid]"
    by blast
next
  assume "MAX_UINT256 < p * r * (l - liquidationThreshold s)"
  with assms show "submitClaim sender now oid p l r s = Inl Panic_0x11"
    by (rule submitClaim_overflow)
qed

text \<open>The submission of the worked example, in the deployed example state.\<close>

theorem submitClaim_stores_estimatedPayout_witness:
  "whitelistedUsers (example_deployed 100) 10 \<and> \<not> blacklistedUsers (example_deployed 100) 10 \<and>
   \<not> locked (example_deployed 100) \<and> \<not> paused (example_deployed 100) \<and>
   \<not> claimedOrders (example_deployed 100) 10 7 \<and>
   liquidationThreshold (example_deployed 100) < 90 \<and>
   (\<exists>s'. submitClaim 10 1000 7 1000 90 50 (example_deployed 100) = Inr s' \<and>
      claimExists s' 10 7 \<and>
      claimRecord s' 10 7 = \<lparr>orderId = 7, amount = 50, timestamp = 1000, verified = False\<rparr> \<and>
      records (userPayouts s' 10) = [claimRecord s' 10 7]) \<and>
   liquidationThreshold (example_deployed 100) < 81 \<and>
   MAX_UINT256 < 2 ^ 255 * 100 * (81 - liquidationThreshold (example_deployed 100)) \<and>
   submitClaim 10 1000 7 (2 ^ 255) 81 100 (example_deployed 100) = Inl Panic_0x11"
proof -
  have h: "whitelistedUsers (example_deployed 100) 10"
    "\<not> blacklistedUsers (example_deployed 100) 10"
    "\<not> locked (example_deployed 100)" "\<not> paused (example_deployed 100)"
    "\<not> claimedOrders (example_deployed 100) 10 7"
    "(0::nat) < 1000" "liquidationThreshold (example_deployed 100) < 90"
    "(0::nat) < 50" "(50::nat) \<le> 100"
    by (simp_all add: example_deployed_def)
  have fits: "1000 * 50 * (90 - liquidationThreshold (example_deployed 100)) \<le> MAX_UINT256"
    by (simp add: example_deployed_def MAX_UINT256_def)
  have val: "1000 * 50 * (90 - liquidationThreshold (example_deployed 100)) div 10000 = 50"
    "records (userPayouts (example_deployed 100) 10) = []"
    by (simp_all add: example_deployed_def)
  from submitClaim_stores_estimatedPayout [OF h, of 1000] fits
  have "\<exists>s'. submitClaim 10 1000 7 1000 90 50 (example_deployed 100) = Inr s' \<and>
      claimExists s' 10 7 \<and>
      claimRecord s' 10 7 =
        \<lparr>orderId = 7,
         amount = 1000 * 50 * (90 - liquidationThreshold (example_deployed 100)) div 10000,
         timestamp = 1000, verified = False\<rparr> \<and>
      records (userPayouts s' 10) =
        records (userPayouts (example_deployed 100) 10) @ [claimRecord s' 10 7]"
    by blast
  then have small: "\<exists>s'. submitClaim 10 1000 7 1000 90 50 (example_deployed 100) = Inr s' \<and>
      claimExists s' 10 7 \<and>
      claimRecord s' 10 7 = \<lparr>orderId = 7, amount = 50, timestamp = 1000, verified = False\<rparr> \<and>
      records (userPayouts s' 10) = [claimRecord s' 10 7]"
    unfolding val by simp
  have h': "(0::nat) < 2 ^ 255" "liquidationThreshold (example_deployed 100) < 81"
    "(0::nat) < 100" "(100::nat) \<le> 100"
    by (simp_all add: example_deployed_def)
  have big: "MAX_UINT256 < 2 ^ 255 * 100 * (81 - liquidationThreshold (example_deployed 100))"
    by (simp add: example_deployed_def MAX_UINT256_def)
  from submitClaim_stores_estimatedPayout [OF h(1-5) h', of 1000] big
  have "submitClaim 10 1000 7 (2 ^ 255) 81 100 (example_deployed 100) = Inl Panic_0x11"
    by blast
  with small big h h' show ?thesis
    by blast
qed

text \<open>The claim as stated fails where the product overflows: every listed precondition
  holds, the call reverts and nothing is stored.\<close>

theorem submitClaim_valid_but_overflowing:
  "whitelistedUsers (example_deployed 100) 10 \<and> \<not> blacklistedUsers (example_deployed 100) 10 \<and>
   (0::nat) < 2 ^ 255 \<and> (2::nat) ^ 255 \<le> MAX_UINT256 \<and>
   liquidationThreshold (example_deployed 100) < 81 \<and> (0::nat) < 100 \<and> (100::nat) \<le> 100 \<and>
   \<not> claimedOrders (example_deployed 100) 10 7 \<and> \<not> paused (example_deployed 100) \<and>
   submitClaim 10 1000 7 (2 ^ 255) 81 100 (example_deployed 100) = Inl Panic_0x11 \<and>
   records (userPayouts
     (commit (example_deployed 100)
        (submitClaim 10 1000 7 (2 ^ 255) 81 100 (example_deployed 100))) 10) = []"
  by (simp add: example_deployed_def submitClaim_def whitelistedOnly_def noReentrant_def
      whenNotPaused_def submitClaim_body_def checked_mul_def checked_sub_def MAX_UINT256_def)

subsection \<open>C4: a claim cannot be submitted twice\<close>

text \<open>
  C4, amended. For every \<open>(owner, orderId)\<close> already claimed, a second \<^verbatim>\<open>submitClaim\<close>
  by that owner for that order always reverts, whatever its other arguments, and leaves the
  whole state, the first record included, as it was. The modifiers run before the body,
  so the revert reason is that of the first check that fails: not whitelisted,
  blacklisted, reentrant call, paused, and only then \<^verbatim>\<open>Order already claimed\<close>.
\<close>

theorem submitClaim_duplicate_rejected:
  assumes "claimedOrders s sender oid"
  shows "submitClaim sender now oid p l r s =
           Inl (if \<not> whitelistedUsers s sender then User_not_whitelisted
                else if blacklistedUsers s sender then User_is_blacklisted
                else if locked s then Reentrant_call
                else if paused s then Contract_paused
                else Order_already_claimed) \<and>
         commit s (submitClaim sender now oid p l r s) = s \<and>
         claimRecord (commit s (submitClaim sender now oid p l r s)) sender oid =
           claimRecord s sender oid"
  by (simp add: submitClaim_again [OF assms])

theorem submitClaim_duplicate_rejected_witness:
  "claimedOrders (example_claim 100 50 False) 10 7 \<and>
   submitClaim 10 2000 7 5 95 10 (example_claim 100 50 False) = Inl Order_already_claimed \<and>
   commit (example_claim 100 50 False)
     (submitClaim 10 2000 7 5 95 10 (example_claim 100 50 False)) = example_claim 100 50 False"
proof -
  have h: "claimedOrders (example_claim 100 50 False) 10 7"
    by (simp add: example_claim_def)
  have "(if \<not> whitelistedUsers (example_claim 100 50 False) 10 then User_not_whitelisted
         else if blacklistedUsers (example_claim 100 50 False) 10 then User_is_blacklisted
         else if locked (example_claim 100 50 False) then Reentrant_call
         else if paused (example_claim 100 50 False) then Contract_paused
         else Order_already_claimed) = Order_already_claimed"
    by (simp add: example_claim_def)
  with submitClaim_duplicate_rejected [OF h, of 2000 5 95 10] h show ?thesis
    by simp
qed

text \<open>The claim as stated fails while the contract is paused: the duplicate is rejected
  with \<^verbatim>\<open>Contract paused\<close>.\<close>

theorem submitClaim_duplicate_while_paused:
  "claimedOrders ((example_claim 100 50 False)\<lparr>paused := True\<rparr>) 10 7 \<and>
   submitClaim 10 2000 7 1000 90 50 ((example_claim 100 50 False)\<lparr>paused := True\<rparr>) =
     Inl Contract_paused \<and>
   submitClaim 10 2000 7 1000 90 50 ((example_claim 100 50 False)\<lparr>paused := True\<rparr>) \<noteq>
     Inl Order_already_claimed"
  by (simp add: example_claim_def submitClaim_def whitelistedOnly_def noReentrant_def
      whenNotPaused_def)

subsection \<open>C5: no payout without verification\<close>

text \<open>
  C5, amended. For every claim on record whose verified flag is false, every call to
  \<^verbatim>\<open>executePayout\<close> for that claim reverts and leaves the state, the ledger balance and
  the claim record included, as it was. The revert reason is \<^verbatim>\<open>Not verified\<close> when the
  checks that come first pass (caller on the multi-sig roster, reentrancy flag free, not
  paused, claimant whitelisted and not blacklisted), and the reason of the first of these
  that fails otherwise.
\<close>

theorem executePayout_unverified_rejected:
  assumes "claimExists s user oid" "\<not> verified (claimRecord s user oid)"
  shows "executePayout sender user oid rcp s =
           Inl (if \<not> isMultiSig sender (multiSigWallets s) then Not_multi_sig_wallet
                else if locked s then Reentrant_call
                else if paused s then Contract_paused
                else if \<not> whitelistedUsers s user then User_not_whitelisted
                else if blacklistedUsers s user then User_is_blacklisted
                else Not_verified) \<and>
         commit s (executePayout sender user oid rcp s) = s \<and>
         contractBalance (commit s (executePayout sender user oid rcp s)) = contractBalance s \<and>
         claimRecord (commit s (executePayout sender user oid rcp s)) user oid =
           claimRecord s user oid"
  by (simp add: executePayout_not_verified [OF assms])

theorem executePayout_unverified_rejected_witness:
  "claimExists (example_claim 100 50 False) 10 7 \<and>
   \<not> verified (claimRecord (example_claim 100 50 False) 10 7) \<and>
   executePayout 2 10 7 accepts (example_claim 100 50 False) = Inl Not_verified \<and>
   commit (example_claim 100 50 False)
     (executePayout 2 10 7 accepts (example_claim 100 50 False)) = example_claim 100 50 False"
proof -
  have h: "claimExists (example_claim 100 50 False) 10 7"
    "\<not> verified (claimRecord (example_claim 100 50 False) 10 7)"
    by (simp_all add: example_claim_def claimExists_def claimRecord_def)
  have "(if \<not> isMultiSig 2 (multiSigWallets (example_claim 100 50 False))
           then Not_multi_sig_wallet
         else if locked (example_claim 100 50 False) then Reentrant_call
         else if paused (example_claim 100 50 False) then Contract_paused
         else if \<not> whitelistedUsers (example_claim 100 50 False) 10 then User_not_whitelisted
         else if blacklistedUsers (example_claim 100 50 False) 10 then User_is_blacklisted
         else Not_verified) = Not_verified"
    by (simp add: example_claim_def)
  with executePayout_unverified_rejected [OF h, of 2 accepts] h show ?thesis
    by simp
qed

text \<open>The claim as stated fails for a caller outside the roster, here the claimant: the
  call is rejected with \<^verbatim>\<open>Not multi-sig wallet\<close>.\<close>

theorem executePayout_unverified_by_outsider:
  "claimExists (example_claim 100 50 False) 10 7 \<and>
   \<not> verified (claimRecord (example_claim 100 50 False) 10 7) \<and>
   executePayout 10 10 7 accepts (example_claim 100 50 False) = Inl Not_multi_sig_wallet \<and>
   executePayout 10 10 7 accepts (example_claim 100 50 False) \<noteq> Inl Not_verified"
  by (simp add: example_claim_def claimExists_def claimRecord_def executePayout_def
      onlyMultiSig_def)

subsection \<open>C6: the reentrancy guard of executePayout\<close>

text \<open>
  C6, amended. In every state that holds the reentrancy flag, which is the state of the
  contract while a payout is in flight (\<open>executePayout_recipient_locked\<close>,
  \<open>example_in_flight\<close>), a nested call of \<^verbatim>\<open>executePayout\<close> reverts at once and changes
  nothing: with \<^verbatim>\<open>Reentrant call\<close> when its caller is on the multi-sig roster, and with
  \<^verbatim>\<open>Not multi-sig wallet\<close> otherwise, since \<^verbatim>\<open>onlyMultiSig\<close> runs before
  \<^verbatim>\<open>noReentrant\<close>. A recipient that re-enters and passes the failure on therefore makes
  the outer call behave as with a recipient that refuses the funds. A call that starts
  with the flag free leaves it free, whether it completes or reverts.
\<close>

theorem executePayout_reentrancy_guard:
  "(locked s \<longrightarrow>
      executePayout sender user oid rcp s =
        Inl (if isMultiSig sender (multiSigWallets s) then Reentrant_call
             else Not_multi_sig_wallet) \<and>
      commit s (executePayout sender user oid rcp s) = s) \<and>
   executePayout sender user oid (reenter sender' user' oid' rcp') s =
     executePayout sender user oid refuses s \<and>
   (\<not> locked s \<longrightarrow> \<not> locked (commit s (executePayout sender user oid rcp s)))"
  by (simp add: executePayout_while_locked executePayout_reenter executePayout_unlocks)

theorem executePayout_reentrancy_guard_witness:
  "locked ((example_claim 76 25 True)\<lparr>locked := True\<rparr>) \<and>
   executePayout 2 10 7 accepts ((example_claim 76 25 True)\<lparr>locked := True\<rparr>) =
     Inl Reentrant_call \<and>
   commit ((example_claim 76 25 True)\<lparr>locked := True\<rparr>)
     (executePayout 2 10 7 accepts ((example_claim 76 25 True)\<lparr>locked := True\<rparr>)) =
     (example_claim 76 25 True)\<lparr>locked := True\<rparr> \<and>
   \<not> locked (example_claim 100 25 True) \<and>
   \<not> locked (commit (example_claim 100 25 True)
     (executePayout 2 10 7 accepts (example_claim 100 25 True)))"
proof -
  have h: "locked ((example_claim 76 25 True)\<lparr>locked := True\<rparr>)"
    "isMultiSig 2 (multiSigWallets ((example_claim 76 25 True)\<lparr>locked := True\<rparr>))"
    "\<not> locked (example_claim 100 25 True)"
    by (simp_all add: example_claim_def)
  from executePayout_reentrancy_guard
         [of "(example_claim 76 25 True)\<lparr>locked := True\<rparr>" 2 10 7 accepts 2 10 7 accepts]
       executePayout_reentrancy_guard
         [of "example_claim 100 25 True" 2 10 7 accepts 2 10 7 accepts] h
  show ?thesis
    by simp
qed

text \<open>The claim as stated fails for the usual re-entering caller, the recipient of the
  payout in flight, who is not on the roster: the nested call is rejected with
  \<^verbatim>\<open>Not multi-sig wallet\<close>.\<close>

theorem executePayout_reentry_by_recipient:
  "locked ((example_claim 76 25 True)\<lparr>locked := True\<rparr>) \<and>
   executePayout 10 10 7 accepts ((example_claim 76 25 True)\<lparr>locked := True\<rparr>) =
     Inl Not_multi_sig_wallet \<and>
   executePayout 10 10 7 accepts ((example_claim 76 25 True)\<lparr>locked := True\<rparr>) \<noteq>
     Inl Reentrant_call"
  by (simp add: example_claim_def executePayout_def onlyMultiSig_def)

subsection \<open>C7: pause\<close>

text \<open>
  C7, amended. In every paused state \<^verbatim>\<open>submitClaim\<close> and \<^verbatim>\<open>executePayout\<close> revert and
  change nothing. The revert reason is \<^verbatim>\<open>Contract paused\<close> when the modifiers that run
  before \<^verbatim>\<open>whenNotPaused\<close> pass (the whitelist, blacklist and roster checks and the
  reentrancy guard), and the reason of the first of these that fails otherwise. The
  read-only queries \<^verbatim>\<open>getUserPayouts\<close> and \<^verbatim>\<open>isOrderClaimed\<close> and the getters of the
  balance and the parameters do not look at the pause flag: they return what they return
  in the same state unpaused.
\<close>

theorem paused_blocks_submit_and_payout:
  assumes "paused s"
  shows "submitClaim sender now oid p l r s =
           Inl (if \<not> whitelistedUsers s sender then User_not_whitelisted
                else if blacklistedUsers s sender then User_is_blacklisted
                else if locked s then Reentrant_call
                else Contract_paused) \<and>
         commit s (submitClaim sender now oid p l r s) = s \<and>
         executePayout sender' user oid' rcp s =
           Inl (if \<not> isMultiSig sender' (multiSigWallets s) then Not_multi_sig_wallet
                else if locked s then Reentrant_call
                else Contract_paused) \<and>
         commit s (executePayout sender' user oid' rcp s) = s \<and>
         getUserPayouts s user = records (userPayouts s user) \<and>
         getUserPayouts s user = getUserPayouts (s\<lparr>paused := False\<rparr>) user \<and>
         isOrderClaimed s user oid' = isOrderClaimed (s\<lparr>paused := False\<rparr>) user oid' \<and>
         contractBalance s = contractBalance (s\<lparr>paused := False\<rparr>) \<and>
         liquidationThreshold s = liquidationThreshold (s\<lparr>paused := False\<rparr>) \<and>
         feePercentage s = feePercentage (s\<lparr>paused := False\<rparr>)"
  by (simp add: submitClaim_while_paused [OF assms] executePayout_while_paused [OF assms]
      getUserPayouts_records isOrderClaimed_def)

theorem paused_blocks_submit_and_payout_witness:
  "paused ((example_claim 100 25 True)\<lparr>paused := True\<rparr>) \<and>
   submitClaim 10 2000 8 1000 90 50 ((example_claim 100 25 True)\<lparr>paused := True\<rparr>) =
     Inl Contract_paused \<and>
   executePayout 2 10 7 accepts ((example_claim 100 25 True)\<lparr>paused := True\<rparr>) =
     Inl Contract_paused \<and>
   getUserPayouts ((example_claim 100 25 True)\<lparr>paused := True\<rparr>) 10 =
     [\<lparr>orderId = 7, amount = 25, timestamp = 1000, verified = True\<rparr>]"
proof -
  have h: "paused ((example_claim 100 25 True)\<lparr>paused := True\<rparr>)"
    by simp
  from paused_blocks_submit_and_payout [OF h, of 10 2000 8 1000 90 50 2 10 7 accepts] h
  show ?thesis
    by (simp add: example_claim_def)
qed

text \<open>The claim as stated fails for callers that the earlier modifiers reject: a
  submitter who is not whitelisted and a payout caller outside the roster are not told
  that the contract is paused.\<close>

theorem paused_but_other_reason:
  "paused ((example_claim 100 25 True)\<lparr>paused := True\<rparr>) \<and>
   submitClaim 11 2000 8 1000 90 50 ((example_claim 100 25 True)\<lparr>paused := True\<rparr>) =
     Inl User_not_whitelisted \<and>
   executePayout 10 10 7 accepts ((example_claim 100 25 True)\<lparr>paused := True\<rparr>) =
     Inl Not_multi_sig_wallet"
  by (simp add: example_claim_def submitClaim_def whitelistedOnly_def executePayout_def
      onlyMultiSig_def)

subsection \<open>C8: the balance check of executePayout\<close>

text \<open>
  C8, amended. The balance check of \<^verbatim>\<open>executePayout\<close> compares the gross amount
  on record (\<^verbatim>\<open>payoutCap\<close>, before the fee) with the ledger, not the net transfer amount:
  when every earlier check passes (caller on the roster, flag free, not paused, claimant
  whitelisted and not blacklisted, claim on record, verified, amount positive), the call
  reverts with \<^verbatim>\<open>Insufficient contract balance\<close> exactly when the amount on record
  exceeds \<open>contractBalance\<close>.
\<close>

theorem executePayout_insufficient_iff_gross:
  assumes "isMultiSig sender (multiSigWallets s)" "\<not> locked s" "\<not> paused s"
    "whitelistedUsers s user" "\<not> blacklistedUsers s user" "claimExists s user oid"
    "verified (claimRecord s user oid)" "0 < amount (claimRecord s user oid)"
  shows "executePayout sender user oid rcp s = Inl Insufficient_contract_balance
         \<longleftrightarrow> contractBalance s < amount (claimRecord s user oid)"
  using assms by (rule executePayout_gross_check)

theorem executePayout_insufficient_iff_gross_witness:
  "isMultiSig 2 (multiSigWallets (example_claim 25 25 True)) \<and>
   \<not> locked (example_claim 25 25 True) \<and> \<not> paused (example_claim 25 25 True) \<and>
   whitelistedUsers (example_claim 25 25 True) 10 \<and>
   \<not> blacklistedUsers (example_claim 25 25 True) 10 \<and>
   claimExists (example_claim 25 25 True) 10 7 \<and>
   verified (claimRecord (example_claim 25 25 True) 10 7) \<and>
   0 < amount (claimRecord (example_claim 25 25 True) 10 7) \<and>
   \<not> contractBalance (example_claim 25 25 True)
       < amount (claimRecord (example_claim 25 25 True) 10 7) \<and>
   executePayout 2 10 7 accepts (example_claim 25 25 True) \<noteq> Inl Insufficient_contract_balance"
proof -
  have h: "isMultiSig 2 (multiSigWallets (example_claim 25 25 True))"
    "\<not> locked (example_claim 25 25 True)" "\<not> paused (example_claim 25 25 True)"
    "whitelistedUsers (example_claim 25 25 True) 10"
    "\<not> blacklistedUsers (example_claim 25 25 True) 10"
    "claimExists (example_claim 25 25 True) 10 7"
    "verified (claimRecord (example_claim 25 25 True) 10 7)"
    "0 < amount (claimRecord (example_claim 25 25 True) 10 7)"
    by (simp_all add: example_claim_def claimExists_def claimRecord_def)
  have enough: "\<not> contractBalance (example_claim 25 25 True)
       < amount (claimRecord (example_claim 25 25 True) 10 7)"
    by (simp add: example_claim_def claimRecord_def)
  from executePayout_insufficient_iff_gross [OF h, of accepts] enough h show ?thesis
    by blast
qed

text \<open>The claim as stated fails where the balance lies between the net and the gross
  amount: with 24 on the ledger and a claim worth 25, the transfer amount 24 does not
  exceed the balance, and the call reverts with \<^verbatim>\<open>Insufficient contract balance\<close>.\<close>

theorem executePayout_net_covered_but_rejected:
  "netAmount (example_claim 24 25 True) 10 7 = 24 \<and>
   netAmount (example_claim 24 25 True) 10 7 \<le> contractBalance (example_claim 24 25 True) \<and>
   executePayout 2 10 7 accepts (example_claim 24 25 True) = Inl Insufficient_contract_balance"
  by (simp add: example_claim_def netAmount_def claimRecord_def executePayout_def
      onlyMultiSig_def noReentrant_def whenNotPaused_def executePayout_body_def Let_def)

subsection \<open>C9: the worked example\<close>

text \<open>
  C9. With \<open>liquidationThreshold = 80\<close> and \<open>feePercentage = 5\<close>: \<^verbatim>\<open>submitClaim\<close> with
  principal 1000, leverage 90 and insurance rate 50 stores an estimated payout of 50; a
  following \<^verbatim>\<open>updateVerification\<close> with insurance rate 50 stores the amount 25; the
  following \<^verbatim>\<open>executePayout\<close> computes the fee 1 and the transfer amount 24, and the
  ledger balance goes down by exactly 24. The three calls succeed in every state where the
  claimant is whitelisted and not blacklisted, the contract is neither paused nor locked,
  the order is new, the verifier and the payer are on the roster and the balance covers 25.
\<close>

theorem worked_example_50_25_24:
  assumes "liquidationThreshold s = 80" "feePercentage s = 5"
    "whitelistedUsers s user" "\<not> blacklistedUsers s user" "\<not> locked s" "\<not> paused s"
    "\<not> claimedOrders s user oid"
    "isMultiSig verifier (multiSigWallets s)" "isMultiSig payer (multiSigWallets s)"
    "25 \<le> contractBalance s"
  shows "\<exists>s1 s2 s3.
           submitClaim user now oid 1000 90 50 s = Inr s1 \<and>
           amount (claimRecord s1 user oid) = 50 \<and>
           updateVerification verifier user oid p l 50 True s1 = Inr s2 \<and>
           amount (claimRecord s2 user oid) = 25 \<and>
           amount (claimRecord s2 user oid) * feePercentage s2 div 100 = 1 \<and>
           netAmount s2 user oid = 24 \<and>
           executePayout payer user oid accepts s2 = Inr s3 \<and>
           contractBalance s3 + 24 = contractBalance s2 \<and>
           events s3 = events s2 @ [Payout user 24, MultiSigExecuted payer ''ExecutePayout'']"
proof -
  have fits: "1000 * 50 * (90 - liquidationThreshold s) \<le> MAX_UINT256"
    by (simp add: assms(1) MAX_UINT256_def)
  from submitClaim_Inr [OF assms(3-7) _ _ _ _ fits, of now]
  obtain s1 where s1: "submitClaim user now oid 1000 90 50 s = Inr s1"
    "claimExists s1 user oid"
    "claimRecord s1 user oid =
       \<lparr>orderId = oid, amount = 1000 * 50 * (90 - liquidationThreshold s) div 10000,
        timestamp = now, verified = False\<rparr>"
    "multiSigWallets s1 = multiSigWallets s" "paused s1 = paused s" "\<not> locked s1"
    "whitelistedUsers s1 = whitelistedUsers s" "blacklistedUsers s1 = blacklistedUsers s"
    "contractBalance s1 = contractBalance s" "feePercentage s1 = feePercentage s"
    using assms(1) by auto
  have a1: "amount (claimRecord s1 user oid) = 50"
    by (simp add: s1(3) assms(1))
  have "amount (claimRecord s1 user oid) * 50 \<le> MAX_UINT256"
    by (simp add: a1 MAX_UINT256_def)
  from updateVerification_Inr [OF _ _ s1(2) this, of verifier p l True]
  obtain s2 where s2: "updateVerification verifier user oid p l 50 True s1 = Inr s2"
    "claimExists s2 user oid"
    "claimRecord s2 user oid =
       (claimRecord s1 user oid)\<lparr>verified := True,
          amount := amount (claimRecord s1 user oid) * 50 div 100\<rparr>"
    "multiSigWallets s2 = multiSigWallets s1" "paused s2 = paused s1" "locked s2 = locked s1"
    "whitelistedUsers s2 = whitelistedUsers s1" "blacklistedUsers s2 = blacklistedUsers s1"
    "contractBalance s2 = contractBalance s1" "feePercentage s2 = feePercentage s1"
    using assms(6,8) s1(4,5) by auto
  have a2: "amount (claimRecord s2 user oid) = 25" "verified (claimRecord s2 user oid)"
    by (simp_all add: s2(3) a1)
  have fee: "feePercentage s2 = 5"
    by (simp add: s2(10) s1(10) assms(2))
  have net: "netAmount s2 user oid = 24"
    by (simp add: netAmount_def a2 fee)
  have "executePayout payer user oid accepts s2 =
           Inr (s2\<lparr>contractBalance := contractBalance s2 - netAmount s2 user oid,
                    locked := False,
                    events := events s2 @ [Payout user (netAmount s2 user oid),
                                           MultiSigExecuted payer ''ExecutePayout'']\<rparr>)"
  proof (rule executePayout_succeeds)
    show "isMultiSig payer (multiSigWallets s2)"
      by (simp add: s2(4) s1(4) assms(9))
    show "\<not> locked s2" by (simp add: s2(6) s1(6))
    show "\<not> paused s2" by (simp add: s2(5) s1(5) assms(6))
    show "whitelistedUsers s2 user" by (simp add: s2(7) s1(7) assms(3))
    show "\<not> blacklistedUsers s2 user" by (simp add: s2(8) s1(8) assms(4))
    show "claimExists s2 user oid" by (rule s2(2))
    show "verified (claimRecord s2 user oid)" by (rule a2(2))
    show "0 < amount (claimRecord s2 user oid)" by (simp add: a2)
    show "amount (claimRecord s2 user oid) * feePercentage s2 \<le> MAX_UINT256"
      by (simp add: a2 fee MAX_UINT256_def)
    show "amount (claimRecord s2 user oid) * feePercentage s2 div 100
            \<le> amount (claimRecord s2 user oid)"
      by (simp add: a2 fee)
    show "amount (claimRecord s2 user oid) \<le> contractBalance s2"
      by (simp add: a2 s2(9) s1(9) assms(10))
  qed
  moreover have "24 \<le> contractBalance s2"
    using assms(10) by (simp add: s2(9) s1(9))
  ultimately show ?thesis
    using s1(1) a1 s2(1) a2(1) fee net by (simp add: a2)
qed

theorem worked_example_50_25_24_witness:
  "liquidationThreshold (example_deployed 100) = 80 \<and>
   feePercentage (example_deployed 100) = 5 \<and>
   whitelistedUsers (example_deployed 100) 10 \<and> \<not> blacklistedUsers (example_deployed 100) 10 \<and>
   \<not> locked (example_deployed 100) \<and> \<not> paused (example_deployed 100) \<and>
   \<not> claimedOrders (example_deployed 100) 10 7 \<and>
   isMultiSig 2 (multiSigWallets (example_deployed 100)) \<and>
   isMultiSig 3 (multiSigWallets (example_deployed 100)) \<and>
   25 \<le> contractBalance (example_deployed 100) \<and>
   (\<exists>s1 s2 s3.
      submitClaim 10 1000 7 1000 90 50 (example_deployed 100) = Inr s1 \<and>
      amount (claimRecord s1 10 7) = 50 \<and>
      updateVerification 2 10 7 1000 90 50 True s1 = Inr s2 \<and>
      amount (claimRecord s2 10 7) = 25 \<and>
      amount (claimRecord s2 10 7) * feePercentage s2 div 100 = 1 \<and>
      netAmount s2 10 7 = 24 \<and>
      executePayout 3 10 7 accepts s2 = Inr s3 \<and>
      contractBalance s3 + 24 = contractBalance s2 \<and>
      events s3 = events s2 @ [Payout 10 24, MultiSigExecuted 3 ''ExecutePayout''])"
proof -
  have h: "liquidationThreshold (example_deployed 100) = 80"
    "feePercentage (example_deployed 100) = 5"
    "whitelistedUsers (example_deployed 100) 10" "\<not> blacklistedUsers (example_deployed 100) 10"
    "\<not> locked (example_deployed 100)" "\<not> paused (example_deployed 100)"
    "\<not> claimedOrders (example_deployed 100) 10 7"
    "isMultiSig 2 (multiSigWallets (example_deployed 100))"
    "isMultiSig 3 (multiSigWallets (example_deployed 100))"
    "25 \<le> contractBalance (example_deployed 100)"
    by (simp_all add: example_deployed_def)
  from worked_example_50_25_24 [OF h, of 1000 1000 90] h show ?thesis
    by blast
qed

subsection \<open>C10: updateVerification rescales the stored amount\<close>

text \<open>
  C10, amended. For every claim on record, every \<^verbatim>\<open>updateVerification\<close> by a caller on
  the roster, with the contract not paused and \<open>amount * r\<close> within \<^verbatim>\<open>uint256\<close>,
  overwrites the stored amount with \<open>amount * r div 100\<close> and the verified flag with \<open>v\<close>,
  whether \<open>v\<close> is true or false. A second call with the same rate works on the amount the
  first one stored: it leaves \<open>(amount * r div 100) * r div 100\<close>, each division
  truncating. That is at most \<open>amount * r\<^sup>2 div 10000\<close>, and equal to it when 100 divides
  \<open>amount * r\<close>.
\<close>

theorem updateVerification_rescales:
  assumes "isMultiSig sender (multiSigWallets s)" "\<not> paused s" "claimExists s user oid"
    "amount (claimRecord s user oid) * r \<le> MAX_UINT256"
    "amount (claimRecord s user oid) * r div 100 * r \<le> MAX_UINT256"
  shows "\<exists>s1 s2.
           updateVerification sender user oid p l r v s = Inr s1 \<and>
           amount (claimRecord s1 user oid) = amount (claimRecord s user oid) * r div 100 \<and>
           verified (claimRecord s1 user oid) = v \<and>
           updateVerification sender user oid p' l' r v' s1 = Inr s2 \<and>
           amount (claimRecord s2 user oid) =
             amount (claimRecord s user oid) * r div 100 * r div 100 \<and>
           verified (claimRecord s2 user oid) = v' \<and>
           amount (claimRecord s2 user oid) \<le> amount (claimRecord s user oid) * r * r div 10000 \<and>
           (100 dvd amount (claimRecord s user oid) * r \<longrightarrow>
              amount (claimRecord s2 user oid) =
                amount (claimRecord s user oid) * r * r div 10000)"
proof -
  from updateVerification_Inr [OF assms(1-4), of p l v]
  obtain s1 where s1: "updateVerification sender user oid p l r v s = Inr s1"
    "claimExists s1 user oid"
    "claimRecord s1 user oid =
       (claimRecord s user oid)\<lparr>verified := v,
          amount := amount (claimRecord s user oid) * r div 100\<rparr>"
    "multiSigWallets s1 = multiSigWallets s" "paused s1 = paused s"
    by auto
  have a1: "amount (claimRecord s1 user oid) = amount (claimRecord s user oid) * r div 100"
    "verified (claimRecord s1 user oid) = v"
    by (simp_all add: s1(3))
  have "amount (claimRecord s1 user oid) * r \<le> MAX_UINT256"
    using assms(5) by (simp add: a1)
  from updateVerification_Inr [OF _ _ s1(2) this, of sender p' l' v']
  obtain s2 where s2: "updateVerification sender user oid p' l' r v' s1 = Inr s2"
    "claimRecord s2 user oid =
       (claimRecord s1 user oid)\<lparr>verified := v',
          amount := amount (claimRecord s1 user oid) * r div 100\<rparr>"
    using assms(1,2) s1(4,5) by auto
  have a2: "amount (claimRecord s2 user oid) =
      amount (claimRecord s user oid) * r div 100 * r div 100"
    "verified (claimRecord s2 user oid) = v'"
    by (simp_all add: s2(2) a1)
  have le: "amount (claimRecord s2 user oid) \<le> amount (claimRecord s user oid) * r * r div 10000"
    unfolding a2 by (rule rescale_twice_le)
  have eq: "100 dvd amount (claimRecord s user oid) * r \<longrightarrow>
      amount (claimRecord s2 user oid) = amount (claimRecord s user oid) * r * r div 10000"
    unfolding a2 by (intro impI rescale_twice_eq)
  from s1(1) a1 s2(1) a2 le eq show ?thesis
    by blast
qed

theorem updateVerification_rescales_witness:
  "isMultiSig 2 (multiSigWallets (example_claim 100 50 False)) \<and>
   \<not> paused (example_claim 100 50 False) \<and> claimExists (example_claim 100 50 False) 10 7 \<and>
   amount (claimRecord (example_claim 100 50 False) 10 7) = 50 \<and>
   (\<exists>s1 s2.
      updateVerification 2 10 7 1000 90 50 False (example_claim 100 50 False) = Inr s1 \<and>
      amount (claimRecord s1 10 7) = 25 \<and> verified (claimRecord s1 10 7) = False \<and>
      updateVerification 2 10 7 1000 90 50 True s1 = Inr s2 \<and>
      amount (claimRecord s2 10 7) = 12 \<and> verified (claimRecord s2 10 7) = True)"
proof -
  have a: "amount (claimRecord (example_claim 100 50 False) 10 7) = 50"
    by (simp add: example_claim_def claimRecord_def)
  have h: "isMultiSig 2 (multiSigWallets (example_claim 100 50 False))"
    "\<not> paused (example_claim 100 50 False)" "claimExists (example_claim 100 50 False) 10 7"
    "amount (claimRecord (example_claim 100 50 False) 10 7) * 50 \<le> MAX_UINT256"
    "amount (claimRecord (example_claim 100 50 False) 10 7) * 50 div 100 * 50 \<le> MAX_UINT256"
    unfolding a by (simp_all add: example_claim_def claimExists_def claimRecord_def MAX_UINT256_def)
  from updateVerification_rescales [OF h, of 1000 90 False 1000 90 True]
  show ?thesis
    using h(1-3) unfolding a by auto
qed

text \<open>The claim as stated fails where the first division truncates: from the amount 2,
  two calls with rate 99 leave \<open>0\<close>, while \<open>2 * 99\<^sup>2 div 10000 = 1\<close>.\<close>

theorem updateVerification_twice_truncates:
  "clear_log (updateVerification 2 10 7 200 81 99 True (example_claim 100 2 False)) =
     Inr (example_claim 100 1 True) \<and>
   clear_log (updateVerification 2 10 7 200 81 99 True (example_claim 100 1 True)) =
     Inr (example_claim 100 0 True) \<and>
   amount (claimRecord (example_claim 100 0 True) 10 7) = 0 \<and>
   amount (claimRecord (example_claim 100 2 False) 10 7) * 99 ^ 2 div 10000 = 1"
  by (simp add: clear_log_def updateVerification_def onlyMultiSig_def whenNotPaused_def
      updateVerification_body_def checked_mul_def MAX_UINT256_def Let_def example_claim_def
      claimRecord_def)

end
